theory Spec2Isabelle
  imports Complex_Main
begin

section \<open>Single-precision values of the volume renderer\<close>

text \<open>
  The volume renderer (volume\_render.cpp) computes in C++ \<open>float\<close>. Its box intersection
  relies on the IEEE-754 special values (a division by a zero direction component), so the
  model keeps them: one NaN, the two infinities, the negative zero, and the finite values.
  \<open>Fin 0\<close> is the positive zero. Finite arithmetic is exact: there is no rounding, no
  overflow and no underflow, and decimal literals such as \<open>0.01f\<close> and \<open>0.1f\<close> stand for
  the rationals they denote.
\<close>

datatype float = NaN | NInf | NZero | Fin real | PInf

fun is_nan :: "float \<Rightarrow> bool" where
  "is_nan NaN = True"
| "is_nan _ = False"

fun is_inf :: "float \<Rightarrow> bool" where
  "is_inf NInf = True"
| "is_inf PInf = True"
| "is_inf _ = False"

fun is_zero :: "float \<Rightarrow> bool" where
  "is_zero NZero = True"
| "is_zero (Fin r) = (r = 0)"
| "is_zero _ = False"

fun is_finite :: "float \<Rightarrow> bool" where
  "is_finite NZero = True"
| "is_finite (Fin r) = True"
| "is_finite _ = False"

text \<open>The sign bit (\<open>True\<close> for negative) and the real value of a finite number.\<close>

fun signbit :: "float \<Rightarrow> bool" where
  "signbit NInf = True"
| "signbit NZero = True"
| "signbit (Fin r) = (r < 0)"
| "signbit _ = False"

fun rval :: "float \<Rightarrow> real" where
  "rval (Fin r) = r"
| "rval _ = 0"

definition mk :: "bool \<Rightarrow> real \<Rightarrow> float" where
  "mk neg r = (if r = 0 then (if neg then NZero else Fin 0) else Fin r)"

definition infinity :: "bool \<Rightarrow> float" where
  "infinity neg = (if neg then NInf else PInf)"

fun fneg :: "float \<Rightarrow> float" where
  "fneg NaN = NaN"
| "fneg NInf = PInf"
| "fneg PInf = NInf"
| "fneg NZero = Fin 0"
| "fneg (Fin r) = (if r = 0 then NZero else Fin (- r))"

text \<open>Addition: opposite infinities give NaN; a zero sum is \<open>+0\<close> unless both are \<open>-0\<close>.\<close>

definition fadd :: "float \<Rightarrow> float \<Rightarrow> float" where
  "fadd a b =
     (if is_nan a \<or> is_nan b then NaN
      else if is_inf a then (if is_inf b \<and> a \<noteq> b then NaN else a)
      else if is_inf b then b
      else if a = NZero \<and> b = NZero then NZero
      else Fin (rval a + rval b))"

definition fsub :: "float \<Rightarrow> float \<Rightarrow> float" where
  "fsub a b = fadd a (fneg b)"

text \<open>Multiplication: zero times infinity is NaN; the sign is the exclusive or of the signs.\<close>

definition fmul :: "float \<Rightarrow> float \<Rightarrow> float" where
  "fmul a b =
     (if is_nan a \<or> is_nan b then NaN
      else if is_inf a \<or> is_inf b then
        (if is_zero a \<or> is_zero b then NaN else infinity (signbit a \<noteq> signbit b))
      else mk (signbit a \<noteq> signbit b) (rval a * rval b))"

text \<open>Division: a finite non-zero value over a zero is an infinity, not an error.\<close>

definition fdiv :: "float \<Rightarrow> float \<Rightarrow> float" where
  "fdiv a b =
     (if is_nan a \<or> is_nan b then NaN
      else if is_inf a then (if is_inf b then NaN else infinity (signbit a \<noteq> signbit b))
      else if is_inf b then mk (signbit a \<noteq> signbit b) 0
      else if is_zero b then (if is_zero a then NaN else infinity (signbit a \<noteq> signbit b))
      else mk (signbit a \<noteq> signbit b) (rval a / rval b))"

text \<open>Comparisons: every comparison with NaN is false; the two zeros are equal.\<close>

fun flt :: "float \<Rightarrow> float \<Rightarrow> bool" where
  "flt NaN _ = False"
| "flt _ NaN = False"
| "flt _ NInf = False"
| "flt NInf _ = True"
| "flt PInf _ = False"
| "flt _ PInf = True"
| "flt a b = (rval a < rval b)"

fun fle :: "float \<Rightarrow> float \<Rightarrow> bool" where
  "fle NaN _ = False"
| "fle _ NaN = False"
| "fle NInf _ = True"
| "fle _ NInf = False"
| "fle _ PInf = True"
| "fle PInf _ = False"
| "fle a b = (rval a \<le> rval b)"

definition fgt :: "float \<Rightarrow> float \<Rightarrow> bool" where
  "fgt a b = flt b a"

definition fge :: "float \<Rightarrow> float \<Rightarrow> bool" where
  "fge a b = fle b a"

text \<open>\<open>std::max(a, b)\<close> is \<open>(a < b) ? b : a\<close> and \<open>std::min(a, b)\<close> is \<open>(b < a) ? b : a\<close>.\<close>

definition fmax :: "float \<Rightarrow> float \<Rightarrow> float" where
  "fmax a b = (if flt a b then b else a)"

definition fmin :: "float \<Rightarrow> float \<Rightarrow> float" where
  "fmin a b = (if flt b a then b else a)"

fun fexp :: "float \<Rightarrow> float" where
  "fexp NaN = NaN"
| "fexp NInf = Fin 0"
| "fexp PInf = PInf"
| "fexp NZero = Fin 1"
| "fexp (Fin r) = Fin (exp r)"

fun fsqrt :: "float \<Rightarrow> float" where
  "fsqrt NaN = NaN"
| "fsqrt NInf = NaN"
| "fsqrt PInf = PInf"
| "fsqrt NZero = NZero"
| "fsqrt (Fin r) = (if r < 0 then NaN else Fin (sqrt r))"

section \<open>Vectors and rays (volume\_render.cpp)\<close>

text \<open>\<open>struct Vec3\<close>; the selectors \<open>vx\<close>, \<open>vy\<close>, \<open>vz\<close> are its fields \<open>x\<close>, \<open>y\<close>, \<open>z\<close>.\<close>

datatype vec3 = Vec3 (vx: float) (vy: float) (vz: float)

definition vadd :: "vec3 \<Rightarrow> vec3 \<Rightarrow> vec3" where
  "vadd a b = Vec3 (fadd (vx a) (vx b)) (fadd (vy a) (vy b)) (fadd (vz a) (vz b))"

definition vsub :: "vec3 \<Rightarrow> vec3 \<Rightarrow> vec3" where
  "vsub a b = Vec3 (fsub (vx a) (vx b)) (fsub (vy a) (vy b)) (fsub (vz a) (vz b))"

definition vscale :: "vec3 \<Rightarrow> float \<Rightarrow> vec3" where
  "vscale a f = Vec3 (fmul (vx a) f) (fmul (vy a) f) (fmul (vz a) f)"

definition vlength :: "vec3 \<Rightarrow> float" where
  "vlength a =
     fsqrt (fadd (fadd (fmul (vx a) (vx a)) (fmul (vy a) (vy a))) (fmul (vz a) (vz a)))"

definition normalize :: "vec3 \<Rightarrow> vec3" where
  "normalize a = (let l = vlength a in Vec3 (fdiv (vx a) l) (fdiv (vy a) l) (fdiv (vz a) l))"

definition dot :: "vec3 \<Rightarrow> vec3 \<Rightarrow> float" where
  "dot a b = fadd (fadd (fmul (vx a) (vx b)) (fmul (vy a) (vy b))) (fmul (vz a) (vz b))"

definition cross :: "vec3 \<Rightarrow> vec3 \<Rightarrow> vec3" where
  "cross a b =
     Vec3 (fsub (fmul (vy a) (vz b)) (fmul (vz a) (vy b)))
          (fsub (fmul (vz a) (vx b)) (fmul (vx a) (vz b)))
          (fsub (fmul (vx a) (vy b)) (fmul (vy a) (vx b)))"

definition componentMul :: "vec3 \<Rightarrow> vec3 \<Rightarrow> vec3" where
  "componentMul a b = Vec3 (fmul (vx a) (vx b)) (fmul (vy a) (vy b)) (fmul (vz a) (vz b))"

definition vmax :: "vec3 \<Rightarrow> vec3 \<Rightarrow> vec3" where
  "vmax a b = Vec3 (fmax (vx a) (vx b)) (fmax (vy a) (vy b)) (fmax (vz a) (vz b))"

definition vmin :: "vec3 \<Rightarrow> vec3 \<Rightarrow> vec3" where
  "vmin a b = Vec3 (fmin (vx a) (vx b)) (fmin (vy a) (vy b)) (fmin (vz a) (vz b))"

text \<open>\<open>struct Ray\<close>: the constructor normalises the direction it is given.\<close>

record ray =
  origin :: vec3
  direction :: vec3

definition Ray :: "vec3 \<Rightarrow> vec3 \<Rightarrow> ray" where
  "Ray o' d = \<lparr>origin = o', direction = normalize d\<rparr>"

section \<open>The volume renderer\<close>

text \<open>
  \<open>class VolumeRenderer\<close>. The OpenVDB grid is not part of the repository: the renderer
  reads it only through \<open>sampleDensity\<close> (a value for every world position) and through the
  corners \<open>t0\<close>, \<open>t1\<close> of its bounding box, so these are the fields of the model.
\<close>

record VolumeRenderer =
  sampleDensity :: "vec3 \<Rightarrow> float"
  t0 :: vec3
  t1 :: vec3
  lightDir :: vec3
  stepSize :: float

text \<open>
  \<open>intersectBox\<close> returns the flag and writes \<open>tMin\<close> and \<open>tMax\<close> through its reference
  parameters; the model returns the three. The local \<open>t1\<close> of the source, which shadows
  the member, is \<open>far\<close> here and its \<open>t2\<close> is \<open>near\<close>.
\<close>

definition intersectBox :: "VolumeRenderer \<Rightarrow> ray \<Rightarrow> bool \<times> float \<times> float" where
  "intersectBox R r =
     (let invDir = Vec3 (fdiv (Fin 1) (vx (direction r))) (fdiv (Fin 1) (vy (direction r)))
                        (fdiv (Fin 1) (vz (direction r)));
          tMin3 = componentMul (vsub (t0 R) (origin r)) invDir;
          tMax3 = componentMul (vsub (t1 R) (origin r)) invDir;
          far = vmax tMin3 tMax3;
          near = vmin tMin3 tMax3;
          tMin = fmax (fmax (vx near) (vy near)) (vz near);
          tMax = fmin (fmin (vx far) (vy far)) (vz far)
      in (fge tMax tMin \<and> fgt tMax (Fin 0), tMin, tMax))"

text \<open>
  The per-axis entry and exit parameters of the slab method, as the specification names
  them: the smaller and the larger of the two face parameters of one axis.
\<close>

definition slab :: "float \<Rightarrow> float \<Rightarrow> float \<Rightarrow> float \<Rightarrow> float \<times> float" where
  "slab lo hi o' d =
     (let a = fmul (fsub lo o') (fdiv (Fin 1) d); b = fmul (fsub hi o') (fdiv (Fin 1) d)
      in (fmin a b, fmax a b))"

definition strictly_between :: "float \<Rightarrow> float \<Rightarrow> float \<Rightarrow> bool" where
  "strictly_between lo v hi \<longleftrightarrow>
     is_finite lo \<and> is_finite v \<and> is_finite hi \<and> flt lo v \<and> flt v hi"

text \<open>
  \<open>traceShadowRay\<close>. The loop is a recursive function on the loop variables \<open>t\<close> and
  \<open>transmittance\<close>; since nothing in the source bounds the number of iterations for every
  step size, it is a partial function and \<open>None\<close> stands for a loop that never ends. The
  last argument is a ghost of the model, the source has no such variable: the log of the
  samples taken so far, each with its parameter \<open>t\<close> and the transmittance that arrived at
  it. Its length is the number of iterations.
\<close>

partial_function (option) shadowLoop ::
  "VolumeRenderer \<Rightarrow> vec3 \<Rightarrow> float \<Rightarrow> float \<Rightarrow> (float \<times> float) list
     \<Rightarrow> (float \<times> (float \<times> float) list) option" where
  "shadowLoop R pos t transmittance samples =
     (if flt t (Fin 20) \<and> fgt transmittance (Fin (1 / 100)) then
        let samplePos = vadd pos (vscale (lightDir R) t);
            density = sampleDensity R samplePos
        in shadowLoop R pos (fadd t (stepSize R))
             (fmul transmittance (fexp (fmul (fneg density) (stepSize R))))
             (samples @ [(t, transmittance)])
      else Some (transmittance, samples))"

definition traceShadowRay :: "VolumeRenderer \<Rightarrow> vec3 \<Rightarrow> float option" where
  "traceShadowRay R pos = map_option fst (shadowLoop R pos (Fin 0) (Fin 1) [])"

text \<open>
  The marching loop of \<open>trace\<close>, on the loop variables \<open>t\<close>, \<open>color\<close> and
  \<open>transmittance\<close>, with the same ghost log. It returns the values the loop leaves
  behind; \<open>trace\<close> returns the colour. The unused \<open>rng\<close> parameter is left out.
  The constructor \<open>Vec3(float x_ = 0, float y_ = 0, float z_ = 0)\<close> has defaults, so
  \<open>Vec3(1.0f)\<close> is the vector (1, 0, 0) and \<open>Vec3(0.0f)\<close> is (0, 0, 0).
\<close>

partial_function (option) marchLoop ::
  "VolumeRenderer \<Rightarrow> ray \<Rightarrow> float \<Rightarrow> float \<Rightarrow> vec3 \<Rightarrow> float \<Rightarrow> (float \<times> float) list
     \<Rightarrow> (vec3 \<times> float \<times> (float \<times> float) list) option" where
  "marchLoop R r tMax t color transmittance samples =
     (if flt t tMax \<and> fgt transmittance (Fin (1 / 100)) then
        let pos = vadd (origin r) (vscale (direction r) t);
            density = sampleDensity R pos
        in if fgt density (Fin 0) then
             (case traceShadowRay R pos of
                None \<Rightarrow> None
              | Some lightDensity \<Rightarrow>
                  let extinction = fmul density (stepSize R);
                      transmittance' = fmul transmittance (fexp (fneg extinction));
                      phase = fdiv (Fin 1) (fmul (Fin 4) (Fin pi));
                      scatteredLight =
                        vscale (vscale (Vec3 (Fin 1) (Fin 0) (Fin 0)) phase) lightDensity
                  in marchLoop R r tMax (fadd t (stepSize R))
                       (vadd color (vscale (vscale scatteredLight transmittance') extinction))
                       transmittance' (samples @ [(t, transmittance)]))
           else marchLoop R r tMax (fadd t (stepSize R)) color transmittance
                  (samples @ [(t, transmittance)])
      else Some (color, transmittance, samples))"

text \<open>
  \<open>march\<close> is the part of \<open>trace\<close> after a hit: the loop from \<open>tMin\<close> with a black
  colour and full transmittance. \<open>trace\<close> returns its colour.
\<close>

definition march ::
  "VolumeRenderer \<Rightarrow> ray \<Rightarrow> float \<Rightarrow> float
     \<Rightarrow> (vec3 \<times> float \<times> (float \<times> float) list) option" where
  "march R r tMin tMax = marchLoop R r tMax tMin (Vec3 (Fin 0) (Fin 0) (Fin 0)) (Fin 1) []"

definition trace :: "VolumeRenderer \<Rightarrow> ray \<Rightarrow> vec3 option" where
  "trace R r =
     (case intersectBox R r of
        (hit, tMin, tMax) \<Rightarrow>
          if \<not> hit then Some (Vec3 (Fin 0) (Fin 0) (Fin 0))
          else map_option fst (march R r tMin tMax))"

section \<open>The image buffer (Image.h)\<close>

text \<open>
  \<open>class Image\<close> holds three \<open>Eigen::MatrixXd\<close> of \<open>height\<close> rows and \<open>width\<close> columns.
  A \<open>double\<close> is idealised as a real number here: the class only stores, compares and
  copies the values. A matrix is the function from row and column to the entry; the
  accessors below touch it inside the guarded range only.
\<close>

type_synonym MatrixXd = "int \<Rightarrow> int \<Rightarrow> real"

record Image =
  width :: int
  height :: int
  red :: MatrixXd
  green :: MatrixXd
  blue :: MatrixXd

text \<open>The constructor: three matrices of zeros.\<close>

definition Image :: "int \<Rightarrow> int \<Rightarrow> Image" where
  "Image w h =
     \<lparr>width = w, height = h, red = (\<lambda>row col. 0), green = (\<lambda>row col. 0),
      blue = (\<lambda>row col. 0)\<rparr>"

text \<open>\<open>std::clamp(v, lo, hi)\<close> is \<open>(v < lo) ? lo : (hi < v) ? hi : v\<close>.\<close>

definition clamp :: "real \<Rightarrow> real \<Rightarrow> real \<Rightarrow> real" where
  "clamp v lo hi = (if v < lo then lo else if hi < v then hi else v)"

text \<open>The assignment \<open>m(row, col) = v\<close>.\<close>

definition assign :: "MatrixXd \<Rightarrow> int \<Rightarrow> int \<Rightarrow> real \<Rightarrow> MatrixXd" where
  "assign m row col v = m(row := (m row)(col := v))"

definition setPixel :: "Image \<Rightarrow> int \<Rightarrow> int \<Rightarrow> real \<Rightarrow> real \<Rightarrow> real \<Rightarrow> Image" where
  "setPixel img x y r g b =
     (if x \<ge> 0 \<and> x < width img \<and> y \<ge> 0 \<and> y < height img then
        img\<lparr>red := assign (red img) y x (clamp r 0 1),
            green := assign (green img) y x (clamp g 0 1),
            blue := assign (blue img) y x (clamp b 0 1)\<rparr>
      else img)"

text \<open>
  \<open>getPixel\<close> writes through its reference parameters \<open>r\<close>, \<open>g\<close>, \<open>b\<close>: the model takes
  their values before the call and returns their values after it.
\<close>

definition getPixel :: "Image \<Rightarrow> int \<Rightarrow> int \<Rightarrow> real \<times> real \<times> real \<Rightarrow> real \<times> real \<times> real" where
  "getPixel img x y rgb =
     (if x \<ge> 0 \<and> x < width img \<and> y \<ge> 0 \<and> y < height img then
        (red img y x, green img y x, blue img y x)
      else rgb)"

definition fill :: "Image \<Rightarrow> real \<Rightarrow> real \<Rightarrow> real \<Rightarrow> Image" where
  "fill img r g b =
     img\<lparr>red := (\<lambda>row col. clamp r 0 1), green := (\<lambda>row col. clamp g 0 1),
         blue := (\<lambda>row col. clamp b 0 1)\<rparr>"


section \<open>The binary image writers\<close>

text \<open>
  The bytes a writer puts into its output stream are a list of \<open>char\<close>, the 8-bit type of
  HOL; \<open>char_of n\<close> is the byte of the number \<open>n\<close>.

  \<open>file << width\<close> prints an \<open>int\<close> in decimal, with a minus sign for a negative one.
\<close>

fun showNat :: "nat \<Rightarrow> string" where
  "showNat n = (if n < 10 then [char_of (48 + n)] else showNat (n div 10) @ [char_of (48 + n mod 10)])"

definition showInt :: "int \<Rightarrow> string" where
  "showInt i = (if i < 0 then CHR ''-'' # showNat (nat (- i)) else showNat (nat i))"

text \<open>The header both writers print: \<open>"P6\n" << width << " " << height << "\n255\n"\<close>.\<close>

definition ppmHeader :: "int \<Rightarrow> int \<Rightarrow> string" where
  "ppmHeader w h =
     ''P6'' @ [CHR 0x0A] @ showInt w @ '' '' @ showInt h @ [CHR 0x0A] @ ''255'' @ [CHR 0x0A]"

text \<open>
  \<open>static_cast<unsigned char>\<close> of a \<open>float\<close> truncates towards zero. The conversion is
  undefined behaviour in C++ when the truncated value is not one of 0 to 255 (and for NaN
  and the infinities): \<open>None\<close>.
\<close>

definition toUChar :: "float \<Rightarrow> char option" where
  "toUChar v =
     (if is_finite v \<and> - 1 < rval v \<and> rval v < 256 then Some (char_of (nat \<lfloor>rval v\<rfloor>))
      else None)"

text \<open>One channel of \<open>saveToPPM\<close>: \<open>static_cast<unsigned char>(std::min(c * 255.0f, 255.0f))\<close>.\<close>

definition channelByte :: "float \<Rightarrow> char option" where
  "channelByte c = toUChar (fmin (fmul c (Fin 255)) (Fin 255))"

definition pixelBytes :: "vec3 \<Rightarrow> string option" where
  "pixelBytes color =
     (case (channelByte (vx color), channelByte (vy color), channelByte (vz color)) of
        (Some r, Some g, Some b) \<Rightarrow> Some [r, g, b]
      | _ \<Rightarrow> None)"

text \<open>
  \<open>saveToPPM\<close> (volume\_render.cpp): the bytes written to the file, \<open>None\<close> when a
  conversion is undefined. The loop runs over the vector \<open>pixels\<close>, whatever \<open>width\<close> and
  \<open>height\<close> are.
\<close>

definition saveToPPM :: "vec3 list \<Rightarrow> int \<Rightarrow> int \<Rightarrow> string option" where
  "saveToPPM pixels w h =
     map_option (\<lambda>body. ppmHeader w h @ concat body) (those (map pixelBytes pixels))"

text \<open>
  \<open>struct Color\<close> and \<open>saveSliceToPPM\<close> of the grid inspection tool, which writes the
  bytes as stored. The selectors \<open>byteR\<close>, \<open>byteG\<close>, \<open>byteB\<close> are the fields \<open>r\<close>, \<open>g\<close>,
  \<open>b\<close>.
\<close>

datatype Color = Color (byteR: char) (byteG: char) (byteB: char)

definition saveSliceToPPM :: "Color list \<Rightarrow> int \<Rightarrow> int \<Rightarrow> string" where
  "saveSliceToPPM pixels w h =
     ppmHeader w h @ concat (map (\<lambda>color. [byteR color, byteG color, byteB color]) pixels)"


section \<open>The two cameras\<close>

subsection \<open>The camera of the ground-plane renderer (Camera.h)\<close>

text \<open>
  \<open>Camera.h\<close> computes with \<open>Eigen::Vector3d\<close>. A \<open>double\<close> is idealised as a real number
  here. Eigen is not part of the repository; \<open>normalized\<close> is modelled as Eigen documents
  it: a vector of squared norm zero is returned as it is, any other is divided by its norm.
  The selectors \<open>ex\<close>, \<open>ey\<close>, \<open>ez\<close> are the coefficients \<open>x()\<close>, \<open>y()\<close>, \<open>z()\<close>.
\<close>

datatype Vector3d = Vector3d (ex: real) (ey: real) (ez: real)

definition minus3 :: "Vector3d \<Rightarrow> Vector3d \<Rightarrow> Vector3d" where
  "minus3 a b = Vector3d (ex a - ex b) (ey a - ey b) (ez a - ez b)"

definition plus3 :: "Vector3d \<Rightarrow> Vector3d \<Rightarrow> Vector3d" where
  "plus3 a b = Vector3d (ex a + ex b) (ey a + ey b) (ez a + ez b)"

definition scale3 :: "Vector3d \<Rightarrow> real \<Rightarrow> Vector3d" where
  "scale3 a k = Vector3d (ex a * k) (ey a * k) (ez a * k)"

definition dot3 :: "Vector3d \<Rightarrow> Vector3d \<Rightarrow> real" where
  "dot3 a b = ex a * ex b + ey a * ey b + ez a * ez b"

definition cross3 :: "Vector3d \<Rightarrow> Vector3d \<Rightarrow> Vector3d" where
  "cross3 a b =
     Vector3d (ey a * ez b - ez a * ey b) (ez a * ex b - ex a * ez b) (ex a * ey b - ey a * ex b)"

definition squaredNorm :: "Vector3d \<Rightarrow> real" where
  "squaredNorm a = dot3 a a"

definition norm3 :: "Vector3d \<Rightarrow> real" where
  "norm3 a = sqrt (squaredNorm a)"

definition normalized :: "Vector3d \<Rightarrow> Vector3d" where
  "normalized n =
     (let z = squaredNorm n
      in if z > 0 then Vector3d (ex n / sqrt z) (ey n / sqrt z) (ez n / sqrt z) else n)"

record Camera =
  position :: Vector3d
  lookAt :: Vector3d
  up :: Vector3d
  fov :: real
  aspectRatio :: real
  nearPlane :: real
  farPlane :: real
  forward :: Vector3d
  right :: Vector3d
  upVector :: Vector3d

definition updateVectors :: "Camera \<Rightarrow> Camera" where
  "updateVectors cam =
     (let forward' = normalized (minus3 (lookAt cam) (position cam));
          right' = normalized (cross3 forward' (up cam));
          upVector' = normalized (cross3 right' forward')
      in cam\<lparr>forward := forward', right := right', upVector := upVector'\<rparr>)"

text \<open>
  The constructor sets the seven parameters and calls \<open>updateVectors\<close>, which assigns the
  three derived vectors; what they held before (nothing, in C++) does not matter, the
  model starts them at zero.
\<close>

definition newCamera ::
  "Vector3d \<Rightarrow> Vector3d \<Rightarrow> Vector3d \<Rightarrow> real \<Rightarrow> real \<Rightarrow> real \<Rightarrow> real \<Rightarrow> Camera" where
  "newCamera pos target upDir fieldOfView ratio near far =
     updateVectors
       \<lparr>position = pos, lookAt = target, up = upDir, fov = fieldOfView, aspectRatio = ratio,
        nearPlane = near, farPlane = far, forward = Vector3d 0 0 0, right = Vector3d 0 0 0,
        upVector = Vector3d 0 0 0\<rparr>"

definition setPosition :: "Camera \<Rightarrow> Vector3d \<Rightarrow> Camera" where
  "setPosition cam pos = updateVectors (cam\<lparr>position := pos\<rparr>)"

definition setLookAt :: "Camera \<Rightarrow> Vector3d \<Rightarrow> Camera" where
  "setLookAt cam target = updateVectors (cam\<lparr>lookAt := target\<rparr>)"

definition setUp :: "Camera \<Rightarrow> Vector3d \<Rightarrow> Camera" where
  "setUp cam upDir = updateVectors (cam\<lparr>up := upDir\<rparr>)"

definition setFOV :: "Camera \<Rightarrow> real \<Rightarrow> Camera" where
  "setFOV cam fieldOfView = cam\<lparr>fov := fieldOfView\<rparr>"

definition setAspectRatio :: "Camera \<Rightarrow> real \<Rightarrow> Camera" where
  "setAspectRatio cam ratio = cam\<lparr>aspectRatio := ratio\<rparr>"

definition setNearPlane :: "Camera \<Rightarrow> real \<Rightarrow> Camera" where
  "setNearPlane cam near = cam\<lparr>nearPlane := near\<rparr>"

definition setFarPlane :: "Camera \<Rightarrow> real \<Rightarrow> Camera" where
  "setFarPlane cam far = cam\<lparr>farPlane := far\<rparr>"

definition generateRay :: "Camera \<Rightarrow> real \<Rightarrow> real \<Rightarrow> Vector3d" where
  "generateRay cam u v =
     (let fovRad = fov cam * pi / 180;
          viewportHeight = 2 * tan (fovRad / 2);
          viewportWidth = viewportHeight * aspectRatio cam;
          pixelX = (u - 1 / 2) * viewportWidth;
          pixelY = (v - 1 / 2) * viewportHeight;
          rayDir = plus3 (plus3 (forward cam) (scale3 (right cam) pixelX))
                     (scale3 (upVector cam) pixelY)
      in normalized rayDir)"

text \<open>The invariant the specification states for a camera basis.\<close>

definition orthonormal :: "Vector3d \<Rightarrow> Vector3d \<Rightarrow> Vector3d \<Rightarrow> bool" where
  "orthonormal f r u \<longleftrightarrow>
     norm3 f = 1 \<and> norm3 r = 1 \<and> norm3 u = 1 \<and> dot3 f r = 0 \<and> dot3 f u = 0 \<and> dot3 r u = 0"

subsection \<open>The camera of the volume renderer (volume\_render.cpp)\<close>

text \<open>
  \<open>std::tan\<close> on the values of the model. The real \<open>tan\<close> of HOL is 0 where the cosine is
  0; the theorems below take angles away from those points.
\<close>

fun ftan :: "float \<Rightarrow> float" where
  "ftan NZero = NZero"
| "ftan (Fin r) = Fin (tan r)"
| "ftan _ = NaN"

text \<open>
  \<open>class Camera\<close> of volume\_render.cpp, named \<open>VolumeCamera\<close> here since the theory has
  the other \<open>Camera\<close> too; its members \<open>position\<close>, \<open>forward\<close>, \<open>right\<close>, \<open>up\<close> are
  \<open>camPosition\<close>, \<open>camForward\<close>, \<open>camRight\<close>, \<open>camUp\<close>. The constructor scales the unit vectors \<open>right\<close> and \<open>up\<close> by the field of
  view before it stores them.
\<close>

record VolumeCamera =
  camPosition :: vec3
  camForward :: vec3
  camRight :: vec3
  camUp :: vec3

definition newVolumeCamera :: "vec3 \<Rightarrow> vec3 \<Rightarrow> vec3 \<Rightarrow> float \<Rightarrow> float \<Rightarrow> VolumeCamera" where
  "newVolumeCamera pos target upVec fieldOfView aspect =
     (let forward' = normalize (vsub target pos);
          right' = normalize (cross forward' upVec);
          up' = normalize (cross forward' right');
          tanFov = ftan (fdiv (fmul (fmul fieldOfView (Fin (1 / 2))) (Fin pi)) (Fin 180))
      in \<lparr>camPosition = pos, camForward = forward',
          camRight = vscale right' (fmul tanFov aspect), camUp = vscale up' tanFov\<rparr>)"

definition getRay :: "VolumeCamera \<Rightarrow> float \<Rightarrow> float \<Rightarrow> ray" where
  "getRay cam u v =
     (let dir = vadd (vadd (camForward cam) (vscale (camRight cam) (fsub (fmul u (Fin 2)) (Fin 1))))
                  (vscale (camUp cam) (fsub (fmul v (Fin 2)) (Fin 1)))
      in Ray (camPosition cam) (normalize dir))"


subsection \<open>Finite vectors as real vectors\<close>

text \<open>
  For the statements about the volume renderer's camera: a vector of finite components,
  and the real vector it stands for.
\<close>

definition vfinite :: "vec3 \<Rightarrow> bool" where
  "vfinite a \<longleftrightarrow> is_finite (vx a) \<and> is_finite (vy a) \<and> is_finite (vz a)"

definition rvec :: "vec3 \<Rightarrow> Vector3d" where
  "rvec a = Vector3d (rval (vx a)) (rval (vy a)) (rval (vz a))"


section \<open>The command line of the volume renderer\<close>

text \<open>
  The constructor of \<open>VolumeRenderer\<close> normalises the light direction and takes the two
  corners of the grid's active bounding box, three \<open>int\<close> each, as \<open>float\<close> vectors.
\<close>

definition newVolumeRenderer ::
  "(vec3 \<Rightarrow> float) \<Rightarrow> int \<times> int \<times> int \<Rightarrow> int \<times> int \<times> int \<Rightarrow> vec3 \<Rightarrow> float \<Rightarrow> VolumeRenderer" where
  "newVolumeRenderer f lo hi light step =
     (case (lo, hi) of
        ((lx, ly, lz), (hx, hy, hz)) \<Rightarrow>
          \<lparr>sampleDensity = f,
           t0 = Vec3 (Fin (of_int lx)) (Fin (of_int ly)) (Fin (of_int lz)),
           t1 = Vec3 (Fin (of_int hx)) (Fin (of_int hy)) (Fin (of_int hz)),
           lightDir = normalize light, stepSize = step\<rparr>)"

text \<open>
  The pixel loop of \<open>main\<close>: pixel \<open>y * width + x\<close> is the colour traced for the ray through
  \<open>u = (x + 0.5) / width\<close>, \<open>v = (y + 0.5) / height\<close>. The iterations do not depend on one
  another, so their order (the loop is an OpenMP parallel loop) does not matter; the
  result is \<open>None\<close> when the march of some pixel never ends.
\<close>

definition renderPixel :: "VolumeCamera \<Rightarrow> VolumeRenderer \<Rightarrow> nat \<Rightarrow> nat \<Rightarrow> nat \<Rightarrow> vec3 option" where
  "renderPixel camera renderer w h i =
     (let y = i div w; x = i mod w;
          u = fdiv (fadd (Fin (real x)) (Fin (1 / 2))) (Fin (real w));
          v = fdiv (fadd (Fin (real y)) (Fin (1 / 2))) (Fin (real h))
      in trace renderer (getRay camera u v))"

definition render :: "VolumeCamera \<Rightarrow> VolumeRenderer \<Rightarrow> nat \<Rightarrow> nat \<Rightarrow> vec3 list option" where
  "render camera renderer w h = those (map (renderPixel camera renderer w h) [0..<w * h])"

text \<open>
  OpenVDB is not part of the repository. What \<open>main\<close> gets from it for a file name is one
  of three things: an exception out of \<open>File::open\<close> or \<open>readGrid("density")\<close>, with its
  message; a grid named \<open>density\<close> that is not a \<open>FloatGrid\<close>, for which \<open>gridPtrCast\<close>
  gives a null pointer; or a \<open>FloatGrid\<close>, of which the renderer uses the value at a world
  position and the corners of the active bounding box.
\<close>

datatype vdb = Throws string | NotFloat | Density "vec3 \<Rightarrow> float" "int \<times> int \<times> int" "int \<times> int \<times> int"

text \<open>
  What a run leaves behind: the exit status, the text on the standard output and on the
  error stream, and the files written, each with its bytes.
\<close>

record process =
  status :: int
  out :: string
  err :: string
  files :: "(string \<times> string) list"

text \<open>
  \<open>main\<close> of volume\_render.cpp. \<open>prog\<close> is \<open>argv[0]\<close> and \<open>args\<close> are the arguments after
  it, so \<open>argc\<close> is \<open>1 + length args\<close>. \<open>canWrite\<close> tells whether the output stream of
  \<open>saveToPPM\<close> opens; the source does not test it. The result is \<open>None\<close> when \<open>main\<close> does
  not return: a march never ends, or the behaviour is undefined (the null grid pointer is
  dereferenced by the constructor of the renderer, a colour cannot be converted to bytes).
\<close>

definition main :: "string \<Rightarrow> string list \<Rightarrow> (string \<Rightarrow> vdb) \<Rightarrow> (string \<Rightarrow> bool) \<Rightarrow> process option" where
  "main prog args openvdb canWrite =
     (if 1 + length args \<noteq> 2 then
        Some \<lparr>status = 1, out = ''Usage: '' @ prog @ '' <vdb_file>\<newline>'', err = [], files = []\<rparr>
      else
        (case openvdb (args ! 0) of
           Throws what \<Rightarrow>
             Some \<lparr>status = 1, out = [], err = ''Error: '' @ what @ ''\<newline>'', files = []\<rparr>
         | NotFloat \<Rightarrow> None
         | Density f lo hi \<Rightarrow>
             (let w = 800; h = 600;
                  aspect = fdiv (Fin (real w)) (Fin (real h));
                  camera = newVolumeCamera (Vec3 (Fin 5) (Fin 3) (Fin 5)) (Vec3 (Fin 0) (Fin 0) (Fin 0))
                             (Vec3 (Fin 0) (Fin 1) (Fin 0)) (Fin 60) aspect;
                  renderer = newVolumeRenderer f lo hi (Vec3 (Fin (- 1)) (Fin 1) (Fin (- 1)))
                               (Fin (1 / 10))
              in case render camera renderer w h of
                   None \<Rightarrow> None
                 | Some pixels \<Rightarrow>
                     (case saveToPPM pixels (int w) (int h) of
                        None \<Rightarrow> None
                      | Some bytes \<Rightarrow>
                          Some \<lparr>status = 0,
                                out = ''Rendered image saved to volume_render.ppm\<newline>'',
                                err = [],
                                files = (if canWrite ''volume_render.ppm''
                                         then [(''volume_render.ppm'', bytes)] else [])\<rparr>))))"

text \<open>
  The argument check at the head of \<open>main\<close> of the grid inspection tool: the result of the
  run when the count is wrong, \<open>None\<close> when the check passes and \<open>main\<close> goes on to read
  the file.
\<close>

definition inspectUsage :: "string \<Rightarrow> string list \<Rightarrow> process option" where
  "inspectUsage prog args =
     (if 1 + length args \<noteq> 2 then
        Some \<lparr>status = 1, out = ''Usage: '' @ prog @ '' <vdb_file>\<newline>'', err = [], files = []\<rparr>
      else None)"


section \<open>Concrete scenes for the examples\<close>

text \<open>
  A field of one density everywhere, the box from (-1, -1, -1) to (1, 1, 1) lit from
  above, and rays from five units before the box along the x axis and along the y axis.
\<close>

definition uniformField :: "real \<Rightarrow> vec3 \<Rightarrow> float" where
  "uniformField d p = Fin d"

definition cube :: "(vec3 \<Rightarrow> float) \<Rightarrow> real \<Rightarrow> VolumeRenderer" where
  "cube f s =
     \<lparr>sampleDensity = f, t0 = Vec3 (Fin (- 1)) (Fin (- 1)) (Fin (- 1)),
      t1 = Vec3 (Fin 1) (Fin 1) (Fin 1), lightDir = Vec3 (Fin 0) (Fin 1) (Fin 0),
      stepSize = Fin s\<rparr>"

definition alongX :: "real \<Rightarrow> ray" where
  "alongX y = \<lparr>origin = Vec3 (Fin (- 5)) (Fin y) (Fin 0), direction = Vec3 (Fin 1) (Fin 0) (Fin 0)\<rparr>"

definition alongY :: "real \<Rightarrow> ray" where
  "alongY x = \<lparr>origin = Vec3 (Fin x) (Fin (- 5)) (Fin 0), direction = Vec3 (Fin 0) (Fin 1) (Fin 0)\<rparr>"


section \<open>Facts about the arithmetic, the box and the two loops\<close>

subsection \<open>Finite values\<close>

lemma fadd_finite: "is_finite a \<Longrightarrow> fadd a (Fin s) = Fin (rval a + s)"
  by (cases a) (simp_all add: fadd_def)

lemma fadd_Fin_finite: "is_finite b \<Longrightarrow> fadd (Fin a) b = Fin (a + rval b)"
  by (cases b) (simp_all add: fadd_def)

lemma flt_finite: "is_finite a \<Longrightarrow> is_finite b \<Longrightarrow> flt a b = (rval a < rval b)"
  by (cases a; cases b) simp_all

lemma fgt_finite: "is_finite a \<Longrightarrow> is_finite b \<Longrightarrow> fgt a b = (rval b < rval a)"
  by (simp add: fgt_def flt_finite)

lemma is_finite_mk [simp]: "is_finite (mk n r)" and rval_mk [simp]: "rval (mk n r) = r"
  by (simp_all add: mk_def)

lemma finite_fmul:
  "is_finite a \<Longrightarrow> is_finite b \<Longrightarrow> is_finite (fmul a b) \<and> rval (fmul a b) = rval a * rval b"
  by (cases a; cases b) (simp_all add: fmul_def)

lemma finite_fadd:
  "is_finite a \<Longrightarrow> is_finite b \<Longrightarrow> is_finite (fadd a b) \<and> rval (fadd a b) = rval a + rval b"
  by (cases a; cases b) (simp_all add: fadd_def)

lemma finite_fneg: "is_finite a \<Longrightarrow> is_finite (fneg a) \<and> rval (fneg a) = - rval a"
  by (cases a) simp_all

lemma finite_fsub:
  "is_finite a \<Longrightarrow> is_finite b \<Longrightarrow> is_finite (fsub a b) \<and> rval (fsub a b) = rval a - rval b"
  by (simp add: fsub_def finite_fadd finite_fneg)

lemma finite_fexp: "is_finite a \<Longrightarrow> is_finite (fexp a) \<and> rval (fexp a) = exp (rval a)"
  by (cases a) simp_all

lemma finite_eq: "is_finite a \<Longrightarrow> rval a \<noteq> 0 \<Longrightarrow> a = Fin (rval a)"
  by (cases a) simp_all

lemma finite_not_inf: "is_finite a \<Longrightarrow> a \<noteq> PInf \<and> a \<noteq> NInf"
  by (cases a) simp_all

lemma fmul_one [simp]: "fmul T (Fin 1) = T"
  by (cases T) (simp_all add: fmul_def mk_def infinity_def)

text \<open>The factor of one shadow sample of zero density is exactly one.\<close>

lemma zero_density_factor:
  "is_zero d \<Longrightarrow> 0 < s \<Longrightarrow> fexp (fmul (fneg d) (Fin s)) = Fin 1"
  by (cases d) (simp_all add: fmul_def mk_def)

lemma not_fgt_zero: "is_zero d \<Longrightarrow> \<not> fgt d (Fin 0)"
  by (cases d) (simp_all add: fgt_def)

subsection \<open>The box intersection\<close>

lemma intersectBox_slabs:
  "intersectBox R r =
     (let sx = slab (vx (t0 R)) (vx (t1 R)) (vx (origin r)) (vx (direction r));
          sy = slab (vy (t0 R)) (vy (t1 R)) (vy (origin r)) (vy (direction r));
          sz = slab (vz (t0 R)) (vz (t1 R)) (vz (origin r)) (vz (direction r));
          tMin = fmax (fmax (fst sx) (fst sy)) (fst sz);
          tMax = fmin (fmin (snd sx) (snd sy)) (snd sz)
      in (fge tMax tMin \<and> fgt tMax (Fin 0), tMin, tMax))"
  by (simp add: intersectBox_def slab_def Let_def vsub_def componentMul_def vmax_def vmin_def)

lemma inv_zero: "is_zero d \<Longrightarrow> fdiv (Fin 1) d = infinity (signbit d)"
  by (cases d) (simp_all add: fdiv_def)

lemma slab_zero_inside:
  assumes "is_zero d" "strictly_between lo o' hi"
  shows "slab lo hi o' d = (NInf, PInf)"
  using assms unfolding strictly_between_def
  by (cases d; cases lo; cases o'; cases hi)
     (auto simp add: slab_def Let_def fdiv_def fsub_def fadd_def fmul_def fmin_def fmax_def infinity_def mk_def)

lemma fmax_NInf_right: "fmax a NInf = a"
  by (cases a) (simp_all add: fmax_def)

lemma fmax_NInf_left: "\<not> is_nan a \<Longrightarrow> fmax NInf a = a"
  by (cases a) (simp_all add: fmax_def)

lemma fmin_PInf_right: "fmin a PInf = a"
  by (cases a) (simp_all add: fmin_def)

lemma fmin_PInf_left: "\<not> is_nan a \<Longrightarrow> fmin PInf a = a"
  by (cases a) (simp_all add: fmin_def)

lemma slab_finite:
  assumes "is_finite lo" "is_finite hi" "is_finite o'" "is_finite d" "\<not> is_zero d"
  shows "is_finite (fst (slab lo hi o' d)) \<and> is_finite (snd (slab lo hi o' d))"
  using assms
  by (cases d; cases lo; cases hi; cases o')
     (simp_all add: slab_def Let_def fdiv_def fsub_def fadd_def fmul_def fmin_def fmax_def mk_def)

lemma fmin_not_PInf_left: "a \<noteq> PInf \<Longrightarrow> fmin a b \<noteq> PInf"
  by (cases a; cases b) (simp_all add: fmin_def)

lemma fmin_not_PInf_right: "is_finite b \<Longrightarrow> fmin a b \<noteq> PInf"
  by (cases a; cases b) (simp_all add: fmin_def)

lemma fmax_not_NInf_left: "a \<noteq> NInf \<Longrightarrow> fmax a b \<noteq> NInf"
  by (cases a; cases b) (simp_all add: fmax_def)

lemma fmax_not_NInf_right: "is_finite b \<Longrightarrow> fmax a b \<noteq> NInf"
  by (cases a; cases b) (simp_all add: fmax_def)

lemma hit_bounds:
  assumes "fge tMax tMin" "fgt tMax (Fin 0)" "tMax \<noteq> PInf" "tMin \<noteq> NInf"
  shows "is_finite tMin \<and> is_finite tMax \<and> rval tMin \<le> rval tMax \<and> 0 < rval tMax"
  using assms by (cases tMax; cases tMin) (simp_all add: fge_def fgt_def)

text \<open>
  A hit of a ray with a finite origin on a finite box, whose direction has a finite
  non-zero component, has finite entry and exit parameters.
\<close>

lemma intersectBox_hit_finite:
  assumes box: "is_finite (vx (t0 R))" "is_finite (vy (t0 R))" "is_finite (vz (t0 R))"
               "is_finite (vx (t1 R))" "is_finite (vy (t1 R))" "is_finite (vz (t1 R))"
    and org: "is_finite (vx (origin r))" "is_finite (vy (origin r))" "is_finite (vz (origin r))"
    and dir: "(is_finite (vx (direction r)) \<and> \<not> is_zero (vx (direction r))) \<or>
              (is_finite (vy (direction r)) \<and> \<not> is_zero (vy (direction r))) \<or>
              (is_finite (vz (direction r)) \<and> \<not> is_zero (vz (direction r)))"
    and hit: "intersectBox R r = (True, tMin, tMax)"
  shows "is_finite tMin \<and> is_finite tMax \<and> rval tMin \<le> rval tMax \<and> 0 < rval tMax"
proof -
  let ?sx = "slab (vx (t0 R)) (vx (t1 R)) (vx (origin r)) (vx (direction r))"
  let ?sy = "slab (vy (t0 R)) (vy (t1 R)) (vy (origin r)) (vy (direction r))"
  let ?sz = "slab (vz (t0 R)) (vz (t1 R)) (vz (origin r)) (vz (direction r))"
  have eq: "tMin = fmax (fmax (fst ?sx) (fst ?sy)) (fst ?sz)"
           "tMax = fmin (fmin (snd ?sx) (snd ?sy)) (snd ?sz)"
    and h: "fge tMax tMin" "fgt tMax (Fin 0)"
    using hit by (auto simp add: intersectBox_slabs Let_def)
  from dir have "tMax \<noteq> PInf \<and> tMin \<noteq> NInf"
  proof (elim disjE conjE)
    assume "is_finite (vx (direction r))" "\<not> is_zero (vx (direction r))"
    then have "is_finite (fst ?sx)" "is_finite (snd ?sx)"
      using slab_finite box org by simp_all
    then have "fst ?sx \<noteq> NInf" "snd ?sx \<noteq> PInf" using finite_not_inf by blast+
    then have "fmax (fst ?sx) (fst ?sy) \<noteq> NInf" "fmin (snd ?sx) (snd ?sy) \<noteq> PInf"
      by (simp_all add: fmax_not_NInf_left fmin_not_PInf_left)
    then show ?thesis unfolding eq
      by (simp add: fmax_not_NInf_left fmin_not_PInf_left)
  next
    assume "is_finite (vy (direction r))" "\<not> is_zero (vy (direction r))"
    then have "is_finite (fst ?sy)" "is_finite (snd ?sy)"
      using slab_finite box org by simp_all
    then have "fmax (fst ?sx) (fst ?sy) \<noteq> NInf" "fmin (snd ?sx) (snd ?sy) \<noteq> PInf"
      by (simp_all add: fmax_not_NInf_right fmin_not_PInf_right)
    then show ?thesis unfolding eq
      by (simp add: fmax_not_NInf_left fmin_not_PInf_left)
  next
    assume "is_finite (vz (direction r))" "\<not> is_zero (vz (direction r))"
    then have "is_finite (fst ?sz)" "is_finite (snd ?sz)"
      using slab_finite box org by simp_all
    then show ?thesis unfolding eq
      by (simp add: fmax_not_NInf_right fmin_not_PInf_right)
  qed
  with h show ?thesis using hit_bounds by blast
qed

subsection \<open>The two loops\<close>

lemma ceil_step:
  fixes x s :: real
  assumes "0 < s" "x < b"
  shows "nat \<lceil>(b - (x + s)) / s\<rceil> < nat \<lceil>(b - x) / s\<rceil>"
proof -
  have "(b - (x + s)) / s = (b - x) / s - 1"
    using assms by (simp add: field_simps)
  moreover have "0 < (b - x) / s" using assms by simp
  ultimately show ?thesis by (simp add: ceiling_diff_one)
qed


text \<open>
  The rule for the shadow loop: with a positive step, an invariant that holds at the start
  and is kept by every iteration holds when the loop returns, and the loop does return.
  The measure is the number of steps left to the distance 20.
\<close>

lemma shadowLoop_rule:
  assumes s: "stepSize R = Fin s" "0 < s"
    and t: "is_finite t"
    and I0: "I t T ss"
    and step: "\<And>t T ss. is_finite t \<Longrightarrow> I t T ss \<Longrightarrow> flt t (Fin 20) \<Longrightarrow> fgt T (Fin (1 / 100)) \<Longrightarrow>
       I (fadd t (Fin s))
         (fmul T (fexp (fmul (fneg (sampleDensity R (vadd pos (vscale (lightDir R) t)))) (Fin s))))
         (ss @ [(t, T)])"
  shows "\<exists>t' T' ss'. shadowLoop R pos t T ss = Some (T', ss') \<and> I t' T' ss' \<and> is_finite t' \<and>
           \<not> (flt t' (Fin 20) \<and> fgt T' (Fin (1 / 100)))"
  using t I0
proof (induction "nat \<lceil>(20 - rval t) / s\<rceil>" arbitrary: t T ss rule: less_induct)
  case less
  show ?case
  proof (cases "flt t (Fin 20) \<and> fgt T (Fin (1 / 100))")
    case False
    then have "shadowLoop R pos t T ss = Some (T, ss)"
      by (subst shadowLoop.simps) (use False in auto)
    with False less.prems show ?thesis by blast
  next
    case True
    let ?t = "fadd t (Fin s)"
    let ?T = "fmul T (fexp (fmul (fneg (sampleDensity R (vadd pos (vscale (lightDir R) t)))) (Fin s)))"
    have lt: "rval t < 20" using True less.prems(1) by (simp add: flt_finite)
    have t': "?t = Fin (rval t + s)" using less.prems(1) by (rule fadd_finite)
    have "nat \<lceil>(20 - rval ?t) / s\<rceil> < nat \<lceil>(20 - rval t) / s\<rceil>"
      using ceil_step [OF s(2) lt] by (simp add: t')
    moreover have "is_finite ?t" by (simp add: t')
    moreover have "I ?t ?T (ss @ [(t, T)])" using step less.prems True by blast
    ultimately obtain t' T' ss' where
      r: "shadowLoop R pos ?t ?T (ss @ [(t, T)]) = Some (T', ss')" "I t' T' ss'" "is_finite t'"
         "\<not> (flt t' (Fin 20) \<and> fgt T' (Fin (1 / 100)))"
      using less.hyps by blast
    have "shadowLoop R pos t T ss = shadowLoop R pos ?t ?T (ss @ [(t, T)])"
      by (subst shadowLoop.simps) (use True in \<open>simp add: s Let_def\<close>)
    with r show ?thesis by metis
  qed
qed

lemma traceShadowRay_returns:
  assumes "stepSize R = Fin s" "0 < s"
  shows "\<exists>L. traceShadowRay R pos = Some L"
proof -
  have "\<exists>t' T' ss'. shadowLoop R pos (Fin 0) (Fin 1) [] = Some (T', ss') \<and> True \<and> is_finite t' \<and>
           \<not> (flt t' (Fin 20) \<and> fgt T' (Fin (1 / 100)))"
    by (rule shadowLoop_rule [OF assms, where I = "\<lambda>_ _ _. True"]) simp_all
  then show ?thesis by (auto simp: traceShadowRay_def)
qed

text \<open>
  The same rule for the marching loop, up to a finite \<open>tMax\<close>; the shadow ray of a sample
  of positive density returns by the rule above.
\<close>

lemma marchLoop_rule:
  assumes s: "stepSize R = Fin s" "0 < s"
    and tMax: "is_finite tMax"
    and t: "is_finite t"
    and I0: "I t c T ss"
    and lit: "\<And>t c T ss L. is_finite t \<Longrightarrow> I t c T ss \<Longrightarrow> flt t tMax \<Longrightarrow> fgt T (Fin (1 / 100)) \<Longrightarrow>
       fgt (sampleDensity R (vadd (origin r) (vscale (direction r) t))) (Fin 0) \<Longrightarrow>
       traceShadowRay R (vadd (origin r) (vscale (direction r) t)) = Some L \<Longrightarrow>
       I (fadd t (Fin s))
         (vadd c (vscale (vscale (vscale (vscale (Vec3 (Fin 1) (Fin 0) (Fin 0))
              (fdiv (Fin 1) (fmul (Fin 4) (Fin pi)))) L)
            (fmul T (fexp (fneg (fmul (sampleDensity R (vadd (origin r) (vscale (direction r) t))) (Fin s))))))
            (fmul (sampleDensity R (vadd (origin r) (vscale (direction r) t))) (Fin s))))
         (fmul T (fexp (fneg (fmul (sampleDensity R (vadd (origin r) (vscale (direction r) t))) (Fin s)))))
         (ss @ [(t, T)])"
    and dark: "\<And>t c T ss. is_finite t \<Longrightarrow> I t c T ss \<Longrightarrow> flt t tMax \<Longrightarrow> fgt T (Fin (1 / 100)) \<Longrightarrow>
       \<not> fgt (sampleDensity R (vadd (origin r) (vscale (direction r) t))) (Fin 0) \<Longrightarrow>
       I (fadd t (Fin s)) c T (ss @ [(t, T)])"
  shows "\<exists>t' c' T' ss'. marchLoop R r tMax t c T ss = Some (c', T', ss') \<and> I t' c' T' ss' \<and>
           is_finite t' \<and> \<not> (flt t' tMax \<and> fgt T' (Fin (1 / 100)))"
  using t I0
proof (induction "nat \<lceil>(rval tMax - rval t) / s\<rceil>" arbitrary: t c T ss rule: less_induct)
  case less
  show ?case
  proof (cases "flt t tMax \<and> fgt T (Fin (1 / 100))")
    case False
    then have "marchLoop R r tMax t c T ss = Some (c, T, ss)"
      by (subst marchLoop.simps) (use False in auto)
    with False less.prems show ?thesis by blast
  next
    case True
    let ?t = "fadd t (Fin s)"
    let ?pos = "vadd (origin r) (vscale (direction r) t)"
    let ?d = "sampleDensity R ?pos"
    have lt: "rval t < rval tMax" using True less.prems(1) tMax by (simp add: flt_finite)
    have t': "?t = Fin (rval t + s)" using less.prems(1) by (rule fadd_finite)
    have m: "nat \<lceil>(rval tMax - rval ?t) / s\<rceil> < nat \<lceil>(rval tMax - rval t) / s\<rceil>"
      using ceil_step [OF s(2) lt] by (simp add: t')
    have f: "is_finite ?t" by (simp add: t')
    show ?thesis
    proof (cases "fgt ?d (Fin 0)")
      case False
      have "I ?t c T (ss @ [(t, T)])" using dark less.prems True False by blast
      with m f obtain t' c' T' ss' where
        r: "marchLoop R r tMax ?t c T (ss @ [(t, T)]) = Some (c', T', ss')" "I t' c' T' ss'" "is_finite t'"
           "\<not> (flt t' tMax \<and> fgt T' (Fin (1 / 100)))"
        using less.hyps by blast
      have "marchLoop R r tMax t c T ss = marchLoop R r tMax ?t c T (ss @ [(t, T)])"
        by (subst marchLoop.simps) (use True False in \<open>simp add: s Let_def\<close>)
      with r show ?thesis by metis
    next
      case dense: True
      obtain L where L: "traceShadowRay R ?pos = Some L"
        using traceShadowRay_returns [OF s] by blast
      let ?T = "fmul T (fexp (fneg (fmul ?d (Fin s))))"
      let ?c = "vadd c (vscale (vscale (vscale (vscale (Vec3 (Fin 1) (Fin 0) (Fin 0))
              (fdiv (Fin 1) (fmul (Fin 4) (Fin pi)))) L) ?T) (fmul ?d (Fin s)))"
      have "I ?t ?c ?T (ss @ [(t, T)])" using lit less.prems True dense L by blast
      with m f obtain t' c' T' ss' where
        r: "marchLoop R r tMax ?t ?c ?T (ss @ [(t, T)]) = Some (c', T', ss')" "I t' c' T' ss'" "is_finite t'"
           "\<not> (flt t' tMax \<and> fgt T' (Fin (1 / 100)))"
        using less.hyps by blast
      have "marchLoop R r tMax t c T ss = marchLoop R r tMax ?t ?c ?T (ss @ [(t, T)])"
        by (subst marchLoop.simps) (use True dense L in \<open>simp add: s Let_def\<close>)
      with r show ?thesis by metis
    qed
  qed
qed

text \<open>
  One iteration of the primary march: a sample whose density is not positive changes
  neither the colour nor the transmittance, a sample of positive density changes both as
  the loop body says, and a transmittance at or below the cutoff ends either loop.
\<close>

lemma marchLoop_skip:
  assumes "flt t tMax" "fgt T (Fin (1 / 100))"
    and "\<not> fgt (sampleDensity R (vadd (origin r) (vscale (direction r) t))) (Fin 0)"
  shows "marchLoop R r tMax t c T ss =
           marchLoop R r tMax (fadd t (stepSize R)) c T (ss @ [(t, T)])"
  by (subst marchLoop.simps) (use assms in \<open>simp add: Let_def\<close>)

lemma marchLoop_lit:
  assumes "flt t tMax" "fgt T (Fin (1 / 100))"
    and "fgt (sampleDensity R (vadd (origin r) (vscale (direction r) t))) (Fin 0)"
    and "traceShadowRay R (vadd (origin r) (vscale (direction r) t)) = Some L"
  shows "marchLoop R r tMax t c T ss =
     marchLoop R r tMax (fadd t (stepSize R))
       (vadd c (vscale (vscale (vscale (vscale (Vec3 (Fin 1) (Fin 0) (Fin 0))
              (fdiv (Fin 1) (fmul (Fin 4) (Fin pi)))) L)
            (fmul T (fexp (fneg (fmul (sampleDensity R (vadd (origin r) (vscale (direction r) t)))
               (stepSize R))))))
          (fmul (sampleDensity R (vadd (origin r) (vscale (direction r) t))) (stepSize R))))
       (fmul T (fexp (fneg (fmul (sampleDensity R (vadd (origin r) (vscale (direction r) t)))
               (stepSize R)))))
       (ss @ [(t, T)])"
  by (subst marchLoop.simps) (use assms in \<open>simp add: Let_def\<close>)



subsection \<open>Termination and the number of samples\<close>




text \<open>With the step 0 the march through empty space never returns.\<close>

lemma march_zero_step:
  assumes s: "stepSize R = Fin 0"
    and z: "\<And>p. is_zero (sampleDensity R p)"
    and g: "is_finite t" "flt t tMax" "fgt T (Fin (1 / 100))"
  shows "marchLoop R r tMax t c T ss = None"
proof (rule ccontr)
  assume "marchLoop R r tMax t c T ss \<noteq> None"
  then obtain y where y: "marchLoop R r tMax t c T ss = Some y" by auto
  let ?P = "\<lambda>R (r::ray) tMax t (c::vec3) T (ss::(float \<times> float) list)
              (y::vec3 \<times> float \<times> (float \<times> float) list).
              \<not> (stepSize R = Fin 0 \<and> (\<forall>p. is_zero (sampleDensity R p)) \<and>
                 is_finite t \<and> flt t tMax \<and> fgt T (Fin (1 / 100)))"
  have "?P R r tMax t c T ss y"
  proof (rule marchLoop.raw_induct [where P = ?P, OF _ y])
    fix loop R r tMax t c T ss y
    assume ih: "\<And>R r tMax t c T ss y. loop R r tMax t c T ss = Some y \<Longrightarrow> ?P R r tMax t c T ss y"
      and body: "(if flt t tMax \<and> fgt T (Fin (1 / 100))
      then let pos = vadd (origin r) (vscale (direction r) t);
               density = sampleDensity R pos
           in if fgt density (Fin 0)
              then case traceShadowRay R pos of None \<Rightarrow> None
                   | Some lightDensity \<Rightarrow>
                       let extinction = fmul density (stepSize R);
                           transmittance' = fmul T (fexp (fneg extinction));
                           phase = fdiv (Fin 1) (fmul (Fin 4) (Fin pi));
                           scatteredLight =
                             vscale (vscale (Vec3 (Fin 1) (Fin 0) (Fin 0)) phase) lightDensity
                       in loop R r tMax (fadd t (stepSize R))
                           (vadd c (vscale (vscale scatteredLight transmittance') extinction))
                           transmittance' (ss @ [(t, T)])
              else loop R r tMax (fadd t (stepSize R)) c T (ss @ [(t, T)])
      else Some (c, T, ss)) = Some y"
    show "?P R r tMax t c T ss y"
    proof
      assume a: "stepSize R = Fin 0 \<and> (\<forall>p. is_zero (sampleDensity R p)) \<and>
            is_finite t \<and> flt t tMax \<and> fgt T (Fin (1 / 100))"
      then have t: "fadd t (Fin 0) = Fin (rval t)" by (simp add: fadd_finite)
      have nd: "\<not> fgt (sampleDensity R (vadd (origin r) (vscale (direction r) t))) (Fin 0)"
        using a by (simp add: not_fgt_zero)
      from body have rec: "loop R r tMax (Fin (rval t)) c T (ss @ [(t, T)]) = Some y"
        using a nd by (simp add: Let_def t)
      have "flt (Fin (rval t)) tMax" using a by (cases t; cases tMax) auto
      with ih [OF rec] a show False by simp
    qed
  qed
  with s z g show False by blast
qed

subsection \<open>What the densities do to the result\<close>

lemma march_zero_density:
  assumes s: "stepSize R = Fin s" "0 < s" and f: "is_finite tMin" "is_finite tMax"
    and z: "\<And>t. is_finite t \<Longrightarrow> rval tMin \<le> rval t \<Longrightarrow> rval t < rval tMax \<Longrightarrow>
              is_zero (sampleDensity R (vadd (origin r) (vscale (direction r) t)))"
  shows "\<exists>ss. march R r tMin tMax = Some (Vec3 (Fin 0) (Fin 0) (Fin 0), Fin 1, ss) \<and>
           (\<forall>(t, \<tau>) \<in> set ss. \<tau> = Fin 1)"
proof -
  let ?I = "\<lambda>t c T ss. c = Vec3 (Fin 0) (Fin 0) (Fin 0) \<and> T = Fin 1 \<and> rval tMin \<le> rval t \<and>
              (\<forall>(t, \<tau>) \<in> set ss. \<tau> = Fin 1)"
  have "\<exists>t' c' T' ss'. marchLoop R r tMax tMin (Vec3 (Fin 0) (Fin 0) (Fin 0)) (Fin 1) [] =
           Some (c', T', ss') \<and> ?I t' c' T' ss' \<and>
           is_finite t' \<and> \<not> (flt t' tMax \<and> fgt T' (Fin (1 / 100)))"
  proof (rule marchLoop_rule [OF s f(2) f(1), where I = ?I], goal_cases)
    case 1
    show ?case by simp
  next
    case (2 t c T ss L)
    then have "is_zero (sampleDensity R (vadd (origin r) (vscale (direction r) t)))"
      using z f by (simp add: flt_finite)
    with 2 show ?case using not_fgt_zero by blast
  next
    case (3 t c T ss)
    then show ?case using s by (simp add: fadd_finite)
  qed
  then show ?thesis by (auto simp: march_def)
qed

text \<open>
  On densities that are finite and not negative the shadow transmittance stays in the
  interval from 0 (excluded) to 1, and on zero densities it stays exactly 1.
\<close>

lemma shadow_unit_interval:
  assumes s: "stepSize R = Fin s" "0 < s"
    and d: "\<And>\<tau>. 0 \<le> \<tau> \<Longrightarrow> \<tau> < 20 \<Longrightarrow>
              is_finite (sampleDensity R (vadd pos (vscale (lightDir R) (Fin \<tau>)))) \<and>
              0 \<le> rval (sampleDensity R (vadd pos (vscale (lightDir R) (Fin \<tau>))))"
  shows "\<exists>\<tau>. traceShadowRay R pos = Some (Fin \<tau>) \<and> 0 < \<tau> \<and> \<tau> \<le> 1"
proof -
  let ?I = "\<lambda>t T (ss :: (float \<times> float) list). (\<exists>\<tau>. t = Fin \<tau> \<and> 0 \<le> \<tau>) \<and> is_finite T \<and> 0 < rval T \<and> rval T \<le> 1"
  have "\<exists>t' T' ss'. shadowLoop R pos (Fin 0) (Fin 1) [] = Some (T', ss') \<and> ?I t' T' ss' \<and>
           is_finite t' \<and> \<not> (flt t' (Fin 20) \<and> fgt T' (Fin (1 / 100)))"
  proof (rule shadowLoop_rule [OF s, where I = ?I], goal_cases)
    case 1 show ?case by simp
  next
    case 2 show ?case by simp
  next
    case (3 t T ss)
    then obtain \<tau> where t: "t = Fin \<tau>" "0 \<le> \<tau>" "\<tau> < 20" by auto
    let ?d = "sampleDensity R (vadd pos (vscale (lightDir R) t))"
    have fd: "is_finite ?d" "0 \<le> rval ?d" using d [OF t(2,3)] t(1) by simp_all
    let ?e = "fexp (fmul (fneg ?d) (Fin s))"
    have fe: "is_finite ?e" "rval ?e = exp (- rval ?d * s)"
      using fd by (simp_all add: finite_fexp finite_fmul finite_fneg)
    have "0 \<le> rval ?d * s" using fd s by simp
    then have e1: "rval ?e \<le> 1" "0 < rval ?e" by (simp_all add: fe)
    have "is_finite (fmul T ?e)" "rval (fmul T ?e) = rval T * rval ?e"
      using 3 fe by (simp_all add: finite_fmul)
    moreover have "0 < rval T * rval ?e" using 3 e1 by simp
    moreover have "rval T * rval ?e \<le> 1" using 3 e1 by (simp add: mult_le_one)
    ultimately show ?case using t s by (simp add: fadd_def)
  qed
  then obtain t' T' ss' where r: "shadowLoop R pos (Fin 0) (Fin 1) [] = Some (T', ss')"
     and i: "is_finite T'" "0 < rval T'" "rval T' \<le> 1" by blast
  from i have "T' = Fin (rval T')" by (simp add: finite_eq)
  with r i show ?thesis unfolding traceShadowRay_def by (metis fst_conv option.simps(9))
qed

lemma shadow_zero_density:
  assumes s: "stepSize R = Fin s" "0 < s"
    and d: "\<And>\<tau>. 0 \<le> \<tau> \<Longrightarrow> \<tau> < 20 \<Longrightarrow>
              is_zero (sampleDensity R (vadd pos (vscale (lightDir R) (Fin \<tau>))))"
  shows "traceShadowRay R pos = Some (Fin 1)"
proof -
  let ?I = "\<lambda>t T (ss :: (float \<times> float) list). (\<exists>\<tau>. t = Fin \<tau> \<and> 0 \<le> \<tau>) \<and> T = Fin 1"
  have "\<exists>t' T' ss'. shadowLoop R pos (Fin 0) (Fin 1) [] = Some (T', ss') \<and> ?I t' T' ss' \<and>
           is_finite t' \<and> \<not> (flt t' (Fin 20) \<and> fgt T' (Fin (1 / 100)))"
  proof (rule shadowLoop_rule [OF s, where I = ?I], goal_cases)
    case 1 show ?case by simp
  next
    case 2 show ?case by simp
  next
    case (3 t T ss)
    then obtain \<tau> where t: "t = Fin \<tau>" "0 \<le> \<tau>" "\<tau> < 20" by auto
    have "is_zero (sampleDensity R (vadd pos (vscale (lightDir R) t)))"
      using d [OF t(2,3)] t(1) by simp
    then show ?case using 3 t s by (simp add: zero_density_factor fadd_def)
  qed
  then show ?thesis by (auto simp: traceShadowRay_def)
qed


lemma shadow_finite_positive:
  assumes s: "stepSize R = Fin s" "0 < s"
    and d: "\<And>p. is_finite (sampleDensity R p)"
  shows "\<exists>L. traceShadowRay R pos = Some (Fin L) \<and> 0 < L"
proof -
  let ?I = "\<lambda>(t::float) T (ss :: (float \<times> float) list). is_finite T \<and> 0 < rval T"
  have "\<exists>t' T' ss'. shadowLoop R pos (Fin 0) (Fin 1) [] = Some (T', ss') \<and> ?I t' T' ss' \<and>
           is_finite t' \<and> \<not> (flt t' (Fin 20) \<and> fgt T' (Fin (1 / 100)))"
  proof (rule shadowLoop_rule [OF s, where I = ?I], goal_cases)
    case 1 show ?case by simp
  next
    case 2 show ?case by simp
  next
    case (3 t T ss)
    let ?e = "fexp (fmul (fneg (sampleDensity R (vadd pos (vscale (lightDir R) t)))) (Fin s))"
    have "is_finite ?e" "0 < rval ?e"
      using d by (simp_all add: finite_fexp finite_fmul finite_fneg)
    with 3 show ?case by (simp add: finite_fmul)
  qed
  then obtain T' ss' where r: "shadowLoop R pos (Fin 0) (Fin 1) [] = Some (T', ss')"
     and i: "is_finite T'" "0 < rval T'" by blast
  from i have "T' = Fin (rval T')" by (simp add: finite_eq)
  with r i show ?thesis unfolding traceShadowRay_def by (metis fst_conv option.simps(9))
qed

text \<open>The values one sample of positive density leaves in the colour and the transmittance.\<close>

lemma sample_values:
  assumes \<tau>: "0 < \<tau>"
  shows "fmul (Fin \<tau>) (fexp (fneg (fmul (Fin d) (Fin s)))) = Fin (\<tau> * exp (- (d * s)))"
    and "vadd (Vec3 (Fin cr) (Fin cg) (Fin cb))
           (vscale (vscale (vscale (vscale (Vec3 (Fin 1) (Fin 0) (Fin 0))
                (fdiv (Fin 1) (fmul (Fin 4) (Fin pi)))) (Fin L))
              (fmul (Fin \<tau>) (fexp (fneg (fmul (Fin d) (Fin s))))))
            (fmul (Fin d) (Fin s))) =
         Vec3 (Fin (cr + 1 / (4 * pi) * L * (\<tau> * exp (- (d * s))) * (d * s))) (Fin cg) (Fin cb)"
    and "vadd (Vec3 (Fin cr) (Fin cg) (Fin cb))
           (vscale (vscale (vscale (vscale (Vec3 (Fin 1) (Fin 0) (Fin 0))
                (fdiv (Fin 1) (fmul (Fin 4) (Fin pi)))) (Fin L))
              (Fin (\<tau> * exp (- (d * s)))))
            (fmul (Fin d) (Fin s))) =
         Vec3 (Fin (cr + 1 / (4 * pi) * L * (\<tau> * exp (- (d * s))) * (d * s))) (Fin cg) (Fin cb)"
proof -
  let ?ext = "fmul (Fin d) (Fin s)"
  let ?T = "fmul (Fin \<tau>) (fexp (fneg ?ext))"
  let ?phase = "fdiv (Fin 1) (fmul (Fin 4) (Fin pi))"
  have ext: "is_finite ?ext" "rval ?ext = d * s" by (simp_all add: finite_fmul)
  show T': "?T = Fin (\<tau> * exp (- (d * s)))"
  proof -
    have "is_finite ?T \<and> rval ?T = \<tau> * exp (- (d * s))"
      using ext by (simp add: finite_fmul finite_fexp finite_fneg)
    moreover have "\<tau> * exp (- (d * s)) \<noteq> 0" using \<tau> by simp
    ultimately show ?thesis using finite_eq by metis
  qed
  have phase: "?phase = Fin (1 / (4 * pi))"
    by (simp add: fdiv_def fmul_def mk_def)
  let ?sl = "vscale (vscale (Vec3 (Fin 1) (Fin 0) (Fin 0)) ?phase) (Fin L)"
  let ?add = "vscale (vscale ?sl ?T) ?ext"
  have red: "is_finite (vx ?add)" "rval (vx ?add) = 1 / (4 * pi) * L * (\<tau> * exp (- (d * s))) * (d * s)"
    using ext by (simp_all add: vscale_def phase T' finite_fmul)
  have green: "is_finite (vy ?add)" "rval (vy ?add) = 0"
    using ext by (simp_all add: vscale_def phase T' finite_fmul)
  have blue: "is_finite (vz ?add)" "rval (vz ?add) = 0"
    using ext by (simp_all add: vscale_def phase T' finite_fmul)
  show c': "vadd (Vec3 (Fin cr) (Fin cg) (Fin cb)) ?add =
         Vec3 (Fin (cr + 1 / (4 * pi) * L * (\<tau> * exp (- (d * s))) * (d * s))) (Fin cg) (Fin cb)"
    using red green blue by (simp add: vadd_def fadd_Fin_finite)
  then show "vadd (Vec3 (Fin cr) (Fin cg) (Fin cb))
           (vscale (vscale (vscale (vscale (Vec3 (Fin 1) (Fin 0) (Fin 0))
                (fdiv (Fin 1) (fmul (Fin 4) (Fin pi)))) (Fin L))
              (Fin (\<tau> * exp (- (d * s)))))
            (fmul (Fin d) (Fin s))) =
         Vec3 (Fin (cr + 1 / (4 * pi) * L * (\<tau> * exp (- (d * s))) * (d * s))) (Fin cg) (Fin cb)"
    by (simp only: T')
qed

text \<open>
  With a field of finite values, a positive step and finite parameters, the march returns
  a colour whose red channel is finite and not negative and whose other channels are zero.
\<close>

lemma march_colour:
  assumes s: "stepSize R = Fin s" "0 < s" and f: "is_finite tMin" "is_finite tMax"
    and d: "\<And>p. is_finite (sampleDensity R p)"
  shows "\<exists>cr T ss. march R r tMin tMax = Some (Vec3 (Fin cr) (Fin 0) (Fin 0), T, ss) \<and> 0 \<le> cr"
proof -
  let ?I = "\<lambda>(t::float) c T (ss :: (float \<times> float) list).
              (\<exists>cr. c = Vec3 (Fin cr) (Fin 0) (Fin 0) \<and> 0 \<le> cr) \<and> (\<exists>\<tau>. T = Fin \<tau> \<and> 0 < \<tau>)"
  have "\<exists>t' c' T' ss'. marchLoop R r tMax tMin (Vec3 (Fin 0) (Fin 0) (Fin 0)) (Fin 1) [] =
           Some (c', T', ss') \<and> ?I t' c' T' ss' \<and>
           is_finite t' \<and> \<not> (flt t' tMax \<and> fgt T' (Fin (1 / 100)))"
  proof (rule marchLoop_rule [OF s f(2) f(1), where I = ?I], goal_cases)
    case 1
    show ?case by simp
  next
    case (2 t c T ss L)
    let ?p = "vadd (origin r) (vscale (direction r) t)"
    from 2 obtain cr \<tau> where c: "c = Vec3 (Fin cr) (Fin 0) (Fin 0)" "0 \<le> cr"
      and T: "T = Fin \<tau>" "0 < \<tau>" by blast
    obtain L' where L: "L = Fin L'" "0 < L'"
      using shadow_finite_positive [OF s d, of ?p] 2(6) by auto
    have "is_finite (sampleDensity R ?p)" by (rule d)
    with 2(5) obtain dv where dv: "sampleDensity R ?p = Fin dv" "0 < dv"
      by (cases "sampleDensity R ?p") (auto simp add: fgt_def)
    have "0 \<le> 1 / (4 * pi) * L' * (\<tau> * exp (- (dv * s))) * (dv * s)"
      using L T dv s by simp
    then show ?case
      using c T by (simp add: dv L sample_values(1,3) [OF T(2)])
  next
    case (3 t c T ss)
    then show ?case by simp
  qed
  then show ?thesis unfolding march_def by blast
qed

lemma trace_colour:
  assumes s: "stepSize R = Fin s" "0 < s"
    and d: "\<And>p. is_finite (sampleDensity R p)"
    and hit: "\<And>tMin tMax. intersectBox R r = (True, tMin, tMax) \<Longrightarrow> is_finite tMin \<and> is_finite tMax"
  shows "\<exists>cr. trace R r = Some (Vec3 (Fin cr) (Fin 0) (Fin 0)) \<and> 0 \<le> cr"
proof (cases "intersectBox R r")
  case (fields h tMin tMax)
  show ?thesis
  proof (cases h)
    case False
    with fields show ?thesis by (simp add: trace_def)
  next
    case True
    with fields hit have "is_finite tMin" "is_finite tMax" by simp_all
    from march_colour [OF s this d, of r]
    show ?thesis using fields True by (auto simp add: trace_def)
  qed
qed

section \<open>Evaluation on the concrete scenes\<close>

text \<open>Unfolding rules for evaluating the model on concrete numbers.\<close>

lemmas float_eval = fadd_def fsub_def fmul_def fdiv_def fmax_def fmin_def fge_def fgt_def
  mk_def infinity_def
lemmas vec_eval = vadd_def vsub_def vscale_def componentMul_def vmax_def vmin_def
lemmas scene_eval = cube_def uniformField_def alongX_def alongY_def

text \<open>
  The cube filled with the density 1/20 and marched with the step 20: a shadow ray takes one
  sample, and the ray along the x axis takes one sample, at the parameter 4.
\<close>

lemma thin_shadow: "traceShadowRay (cube (uniformField (1 / 20)) 20) p = Some (Fin (exp (- 1)))"
  unfolding traceShadowRay_def
  apply (subst shadowLoop.simps)
  apply (simp add: scene_eval float_eval Let_def)
  apply (subst shadowLoop.simps)
  apply (simp add: float_eval)
  done

lemma thin_march:
  "march (cube (uniformField (1 / 20)) 20) (alongX 0) (Fin 4) (Fin 6) =
     Some (Vec3 (Fin (1 / (4 * pi) * exp (- 1) * (1 * exp (- 1)) * 1)) (Fin 0) (Fin 0),
           Fin (exp (- 1)), [(Fin 4, Fin 1)])"
  unfolding march_def
  apply (subst marchLoop_lit [where L = "Fin (exp (- 1))"])
      apply (simp_all add: thin_shadow)
    apply (simp_all add: scene_eval float_eval)
  apply (subst marchLoop.simps)
  apply (simp add: float_eval vec_eval)
  done


section \<open>The claims about the box intersection and the march\<close>

text \<open>
  C4, as amended. \<open>intersectBox\<close> takes \<open>tMin\<close> as the maximum of the per-axis entry
  parameters and \<open>tMax\<close> as the minimum of the per-axis exit parameters, and reports a hit
  exactly when \<open>tMax \<ge> tMin\<close> and \<open>tMax > 0\<close>. A direction component of zero (of either
  sign) gives an infinite inverse, never an error. Such an axis leaves the interval alone
  when the origin lies strictly between the two faces of the box on that axis: its
  parameters are \<open>-\<infinity>\<close> and \<open>+\<infinity>\<close>, and \<open>intersectBox\<close> returns what the other two axes
  give (for the x axis, whose values come first in the nested \<open>std::max\<close> and
  \<open>std::min\<close>, provided the y parameters are not NaN).
\<close>

theorem intersectBox_slab_method:
  "intersectBox R r =
     (let sx = slab (vx (t0 R)) (vx (t1 R)) (vx (origin r)) (vx (direction r));
          sy = slab (vy (t0 R)) (vy (t1 R)) (vy (origin r)) (vy (direction r));
          sz = slab (vz (t0 R)) (vz (t1 R)) (vz (origin r)) (vz (direction r));
          tMin = fmax (fmax (fst sx) (fst sy)) (fst sz);
          tMax = fmin (fmin (snd sx) (snd sy)) (snd sz)
      in (fge tMax tMin \<and> fgt tMax (Fin 0), tMin, tMax)) \<and>
   (is_zero d \<longrightarrow> fdiv (Fin 1) d = infinity (signbit d)) \<and>
   (is_zero d \<and> strictly_between lo o' hi \<longrightarrow> slab lo hi o' d = (NInf, PInf)) \<and>
   (is_zero (vx (direction r)) \<and> strictly_between (vx (t0 R)) (vx (origin r)) (vx (t1 R)) \<and>
    \<not> is_nan (fst (slab (vy (t0 R)) (vy (t1 R)) (vy (origin r)) (vy (direction r)))) \<and>
    \<not> is_nan (snd (slab (vy (t0 R)) (vy (t1 R)) (vy (origin r)) (vy (direction r)))) \<longrightarrow>
      intersectBox R r =
        (let sy = slab (vy (t0 R)) (vy (t1 R)) (vy (origin r)) (vy (direction r));
             sz = slab (vz (t0 R)) (vz (t1 R)) (vz (origin r)) (vz (direction r));
             tMin = fmax (fst sy) (fst sz);
             tMax = fmin (snd sy) (snd sz)
         in (fge tMax tMin \<and> fgt tMax (Fin 0), tMin, tMax))) \<and>
   (is_zero (vy (direction r)) \<and> strictly_between (vy (t0 R)) (vy (origin r)) (vy (t1 R)) \<longrightarrow>
      intersectBox R r =
        (let sx = slab (vx (t0 R)) (vx (t1 R)) (vx (origin r)) (vx (direction r));
             sz = slab (vz (t0 R)) (vz (t1 R)) (vz (origin r)) (vz (direction r));
             tMin = fmax (fst sx) (fst sz);
             tMax = fmin (snd sx) (snd sz)
         in (fge tMax tMin \<and> fgt tMax (Fin 0), tMin, tMax))) \<and>
   (is_zero (vz (direction r)) \<and> strictly_between (vz (t0 R)) (vz (origin r)) (vz (t1 R)) \<longrightarrow>
      intersectBox R r =
        (let sx = slab (vx (t0 R)) (vx (t1 R)) (vx (origin r)) (vx (direction r));
             sy = slab (vy (t0 R)) (vy (t1 R)) (vy (origin r)) (vy (direction r));
             tMin = fmax (fst sx) (fst sy);
             tMax = fmin (snd sx) (snd sy)
         in (fge tMax tMin \<and> fgt tMax (Fin 0), tMin, tMax)))"
proof (intro conjI impI)
  show "intersectBox R r =
     (let sx = slab (vx (t0 R)) (vx (t1 R)) (vx (origin r)) (vx (direction r));
          sy = slab (vy (t0 R)) (vy (t1 R)) (vy (origin r)) (vy (direction r));
          sz = slab (vz (t0 R)) (vz (t1 R)) (vz (origin r)) (vz (direction r));
          tMin = fmax (fmax (fst sx) (fst sy)) (fst sz);
          tMax = fmin (fmin (snd sx) (snd sy)) (snd sz)
      in (fge tMax tMin \<and> fgt tMax (Fin 0), tMin, tMax))"
    by (rule intersectBox_slabs)
next
  assume "is_zero d"
  then show "fdiv (Fin 1) d = infinity (signbit d)" by (rule inv_zero)
next
  assume "is_zero d \<and> strictly_between lo o' hi"
  then show "slab lo hi o' d = (NInf, PInf)" by (simp add: slab_zero_inside)
next
  assume a: "is_zero (vx (direction r)) \<and> strictly_between (vx (t0 R)) (vx (origin r)) (vx (t1 R)) \<and>
    \<not> is_nan (fst (slab (vy (t0 R)) (vy (t1 R)) (vy (origin r)) (vy (direction r)))) \<and>
    \<not> is_nan (snd (slab (vy (t0 R)) (vy (t1 R)) (vy (origin r)) (vy (direction r))))"
  then have "slab (vx (t0 R)) (vx (t1 R)) (vx (origin r)) (vx (direction r)) = (NInf, PInf)"
    by (simp add: slab_zero_inside)
  with a show "intersectBox R r =
        (let sy = slab (vy (t0 R)) (vy (t1 R)) (vy (origin r)) (vy (direction r));
             sz = slab (vz (t0 R)) (vz (t1 R)) (vz (origin r)) (vz (direction r));
             tMin = fmax (fst sy) (fst sz);
             tMax = fmin (snd sy) (snd sz)
         in (fge tMax tMin \<and> fgt tMax (Fin 0), tMin, tMax))"
    by (simp add: intersectBox_slabs Let_def fmax_NInf_left fmin_PInf_left)
next
  assume "is_zero (vy (direction r)) \<and> strictly_between (vy (t0 R)) (vy (origin r)) (vy (t1 R))"
  then have "slab (vy (t0 R)) (vy (t1 R)) (vy (origin r)) (vy (direction r)) = (NInf, PInf)"
    by (simp add: slab_zero_inside)
  then show "intersectBox R r =
        (let sx = slab (vx (t0 R)) (vx (t1 R)) (vx (origin r)) (vx (direction r));
             sz = slab (vz (t0 R)) (vz (t1 R)) (vz (origin r)) (vz (direction r));
             tMin = fmax (fst sx) (fst sz);
             tMax = fmin (snd sx) (snd sz)
         in (fge tMax tMin \<and> fgt tMax (Fin 0), tMin, tMax))"
    by (simp add: intersectBox_slabs Let_def fmax_NInf_right fmin_PInf_right)
next
  assume "is_zero (vz (direction r)) \<and> strictly_between (vz (t0 R)) (vz (origin r)) (vz (t1 R))"
  then have "slab (vz (t0 R)) (vz (t1 R)) (vz (origin r)) (vz (direction r)) = (NInf, PInf)"
    by (simp add: slab_zero_inside)
  then show "intersectBox R r =
        (let sx = slab (vx (t0 R)) (vx (t1 R)) (vx (origin r)) (vx (direction r));
             sy = slab (vy (t0 R)) (vy (t1 R)) (vy (origin r)) (vy (direction r));
             tMin = fmax (fst sx) (fst sy);
             tMax = fmin (snd sx) (snd sy)
         in (fge tMax tMin \<and> fgt tMax (Fin 0), tMin, tMax))"
    by (simp add: intersectBox_slabs Let_def fmax_NInf_right fmin_PInf_right)
qed

text \<open>
  C4 as stated says that an axis with a zero direction component never constrains the
  interval. On the box from (-1, -1, -1) to (1, 1, 1), the ray from (-5, 5, 0) along
  the x axis has a zero y component and starts outside the box's y range: the y axis gives
  the parameters \<open>-\<infinity>\<close>, \<open>-\<infinity>\<close> and the ray misses, while the x and z axes alone give the
  interval from 4 to 6, a hit.
\<close>

theorem intersectBox_zero_axis_counterexample:
  "is_zero (vy (direction (alongX 5))) \<and>
   intersectBox
     (cube (uniformField 0) (1 / 10))
     (alongX 5)
     = (False, Fin 4, NInf) \<and>
   slab (Fin (-1)) (Fin 1) (Fin (-5)) (Fin 1) = (Fin 4, Fin 6) \<and>
   slab (Fin (-1)) (Fin 1) (Fin 5) (Fin 0) = (NInf, NInf) \<and>
   slab (Fin (-1)) (Fin 1) (Fin 0) (Fin 0) = (NInf, PInf) \<and>
   (fge (fmin (Fin 6) PInf) (fmax (Fin 4) NInf) \<and> fgt (fmin (Fin 6) PInf) (Fin 0),
    fmax (Fin 4) NInf, fmin (Fin 6) PInf) = (True, Fin 4, Fin 6)"
  by (simp add: intersectBox_def slab_def Let_def float_eval vec_eval scene_eval)

text \<open>
  The amended claim on two rays through the same box: along the x axis from (-5, 0, 0),
  where the y and z components are zero, and along the y axis from (0, -5, 0), where the
  x component is zero.
\<close>

theorem intersectBox_slab_method_witness:
  "is_zero (Fin 0) \<and> strictly_between (Fin (-1)) (Fin 0) (Fin 1) \<and>
   fdiv (Fin 1) (Fin 0) = PInf \<and>
   slab (Fin (-1)) (Fin 1) (Fin 0) (Fin 0) = (NInf, PInf) \<and>
   slab (Fin (-1)) (Fin 1) (Fin (-5)) (Fin 1) = (Fin 4, Fin 6) \<and>
   intersectBox
     (cube (uniformField 0) (1 / 10))
     (alongX 0)
     = (True, Fin 4, Fin 6) \<and>
   intersectBox
     (cube (uniformField 0) (1 / 10))
     (alongY 0)
     = (True, Fin 4, Fin 6)"
  using intersectBox_slab_method
    [where R = "cube (uniformField 0) (1 / 10)"
     and r = "alongX 0"
     and d = "Fin 0" and lo = "Fin (-1)" and o' = "Fin 0" and hi = "Fin 1"]
    intersectBox_slab_method
    [where R = "cube (uniformField 0) (1 / 10)"
     and r = "alongY 0"
     and d = "Fin 0" and lo = "Fin (-1)" and o' = "Fin 0" and hi = "Fin 1"]
  by (simp add: strictly_between_def slab_def Let_def float_eval scene_eval)



text \<open>
  C6. A ray that misses the box gets the colour (0, 0, 0). A ray that hits, marched with a
  positive step between finite parameters through samples of zero density only, gets the
  colour (0, 0, 0) as well, and the transmittance is exactly 1 at every sample and at the
  end of the march.
\<close>

theorem trace_zero_radiance:
  "(\<not> fst (intersectBox R r) \<longrightarrow> trace R r = Some (Vec3 (Fin 0) (Fin 0) (Fin 0))) \<and>
   (intersectBox R r = (True, tMin, tMax) \<and> stepSize R = Fin s \<and> 0 < s \<and>
    is_finite tMin \<and> is_finite tMax \<and>
    (\<forall>t. is_finite t \<and> rval tMin \<le> rval t \<and> rval t < rval tMax \<longrightarrow>
       is_zero (sampleDensity R (vadd (origin r) (vscale (direction r) t)))) \<longrightarrow>
      trace R r = Some (Vec3 (Fin 0) (Fin 0) (Fin 0)) \<and>
      (\<exists>ss. march R r tMin tMax = Some (Vec3 (Fin 0) (Fin 0) (Fin 0), Fin 1, ss) \<and>
         (\<forall>(t, \<tau>) \<in> set ss. \<tau> = Fin 1)))"
proof (intro conjI impI)
  assume "\<not> fst (intersectBox R r)"
  then show "trace R r = Some (Vec3 (Fin 0) (Fin 0) (Fin 0))"
    by (cases "intersectBox R r") (simp add: trace_def)
next
  assume a: "intersectBox R r = (True, tMin, tMax) \<and> stepSize R = Fin s \<and> 0 < s \<and>
    is_finite tMin \<and> is_finite tMax \<and>
    (\<forall>t. is_finite t \<and> rval tMin \<le> rval t \<and> rval t < rval tMax \<longrightarrow>
       is_zero (sampleDensity R (vadd (origin r) (vscale (direction r) t))))"
  then have m: "\<exists>ss. march R r tMin tMax = Some (Vec3 (Fin 0) (Fin 0) (Fin 0), Fin 1, ss) \<and>
         (\<forall>(t, \<tau>) \<in> set ss. \<tau> = Fin 1)"
    using march_zero_density [of R s tMin tMax r] by blast
  then show "\<exists>ss. march R r tMin tMax = Some (Vec3 (Fin 0) (Fin 0) (Fin 0), Fin 1, ss) \<and>
         (\<forall>(t, \<tau>) \<in> set ss. \<tau> = Fin 1)" .
  from m a show "trace R r = Some (Vec3 (Fin 0) (Fin 0) (Fin 0))"
    by (auto simp: trace_def)
qed

text \<open>
  C6 on a ray that passes beside the box, and on a ray through the box with the density
  zero everywhere.
\<close>

theorem trace_zero_radiance_witness:
  "\<not> fst (intersectBox
       (cube (uniformField 1) (1 / 10))
       (alongX 5)) \<and>
   trace
       (cube (uniformField 1) (1 / 10))
       (alongX 5)
     = Some (Vec3 (Fin 0) (Fin 0) (Fin 0)) \<and>
   intersectBox
       (cube (uniformField 0) (1 / 10))
       (alongX 0)
     = (True, Fin 4, Fin 6) \<and>
   trace
       (cube (uniformField 0) (1 / 10))
       (alongX 0)
     = Some (Vec3 (Fin 0) (Fin 0) (Fin 0))"
  using trace_zero_radiance
      [where R = "cube (uniformField 1) (1 / 10)"
       and r = "alongX 5"]
    trace_zero_radiance
      [where R = "cube (uniformField 0) (1 / 10)"
       and r = "alongX 0"
       and s = "1 / 10" and tMin = "Fin 4" and tMax = "Fin 6"]
  by (simp add: intersectBox_def Let_def float_eval vec_eval scene_eval)

section \<open>The claims about one sample\<close>

text \<open>
  C1, as amended. A sample of positive density \<open>d\<close>, reached with the transmittance \<open>\<tau>\<close>
  and lit by the shadow transmittance \<open>L\<close>, adds to the red channel of the colour
  \<open>1/(4\<pi>) \<times> L \<times> (\<tau> \<times> exp (-(d \<times> s))) \<times> (d \<times> s)\<close>: the phase constant, the shadow
  transmittance, the transmittance after this step's Beer-Lambert update, and the extinction
  \<open>d \<times> s\<close>. The light colour \<open>Vec3(1.0f)\<close> is (1, 0, 0), so the green and the blue channel
  keep their values.
\<close>

theorem march_sample_contribution:
  assumes guard: "flt t tMax" "fgt (Fin \<tau>) (Fin (1 / 100))"
    and step: "stepSize R = Fin s"
    and dens: "sampleDensity R (vadd (origin r) (vscale (direction r) t)) = Fin d" "0 < d"
    and shadow: "traceShadowRay R (vadd (origin r) (vscale (direction r) t)) = Some (Fin L)"
  shows "marchLoop R r tMax t (Vec3 (Fin cr) (Fin cg) (Fin cb)) (Fin \<tau>) ss =
       marchLoop R r tMax (fadd t (Fin s))
         (Vec3 (Fin (cr + 1 / (4 * pi) * L * (\<tau> * exp (- (d * s))) * (d * s))) (Fin cg) (Fin cb))
         (Fin (\<tau> * exp (- (d * s)))) (ss @ [(t, Fin \<tau>)])"
proof -
  have \<tau>: "0 < \<tau>" using guard by (simp add: fgt_def)
  have "fgt (sampleDensity R (vadd (origin r) (vscale (direction r) t))) (Fin 0)"
    using dens by (simp add: fgt_def)
  from marchLoop_lit [OF guard this shadow, of "Vec3 (Fin cr) (Fin cg) (Fin cb)" ss]
  have "marchLoop R r tMax t (Vec3 (Fin cr) (Fin cg) (Fin cb)) (Fin \<tau>) ss =
     marchLoop R r tMax (fadd t (Fin s))
       (vadd (Vec3 (Fin cr) (Fin cg) (Fin cb))
          (vscale (vscale (vscale (vscale (Vec3 (Fin 1) (Fin 0) (Fin 0))
                (fdiv (Fin 1) (fmul (Fin 4) (Fin pi)))) (Fin L))
              (fmul (Fin \<tau>) (fexp (fneg (fmul (Fin d) (Fin s))))))
            (fmul (Fin d) (Fin s))))
       (fmul (Fin \<tau>) (fexp (fneg (fmul (Fin d) (Fin s)))))
       (ss @ [(t, Fin \<tau>)])"
    by (simp only: dens step)
  then show ?thesis
    using sample_values(2) [OF \<tau>, of cr cg cb L d s] by (simp only: sample_values(1) [OF \<tau>])
qed

text \<open>
  C1 as stated takes the transmittance that arrives at the sample. In the cube of density
  1/20 marched with the step 20, the ray along the x axis takes the one sample at the
  parameter 4, with extinction 1, arriving transmittance 1 and shadow transmittance
  \<open>exp (-1)\<close>. The colour returned has the red channel \<open>1/(4\<pi>) \<times> exp (-1) \<times> exp (-1) \<times> 1\<close>,
  not \<open>1/(4\<pi>) \<times> exp (-1) \<times> 1 \<times> 1\<close>.
\<close>

theorem march_pre_update_counterexample:
  "trace (cube (uniformField (1 / 20)) 20) (alongX 0) =
     Some (Vec3 (Fin (1 / (4 * pi) * exp (- 1) * (1 * exp (- 1)) * 1)) (Fin 0) (Fin 0)) \<and>
   march (cube (uniformField (1 / 20)) 20) (alongX 0) (Fin 4) (Fin 6) =
     Some (Vec3 (Fin (1 / (4 * pi) * exp (- 1) * (1 * exp (- 1)) * 1)) (Fin 0) (Fin 0),
           Fin (exp (- 1)), [(Fin 4, Fin 1)]) \<and>
   traceShadowRay (cube (uniformField (1 / 20)) 20) (Vec3 (Fin (- 1)) (Fin 0) (Fin 0)) =
     Some (Fin (exp (- 1))) \<and>
   1 / (4 * pi) * exp (- 1) * (1 * exp (- 1)) * 1 \<noteq> 1 / (4 * pi) * exp (- 1) * 1 * (1 :: real)"
proof -
  have "intersectBox (cube (uniformField (1 / 20)) 20) (alongX 0) = (True, Fin 4, Fin 6)"
    by (simp add: intersectBox_def Let_def float_eval vec_eval scene_eval)
  then have "trace (cube (uniformField (1 / 20)) 20) (alongX 0) =
     Some (Vec3 (Fin (1 / (4 * pi) * exp (- 1) * (1 * exp (- 1)) * 1)) (Fin 0) (Fin 0))"
    by (simp add: trace_def thin_march)
  then show ?thesis by (simp add: thin_march thin_shadow)
qed

text \<open>The amended C1 on that sample.\<close>

theorem march_sample_contribution_witness:
  "marchLoop (cube (uniformField (1 / 20)) 20) (alongX 0) (Fin 6) (Fin 4)
       (Vec3 (Fin 0) (Fin 0) (Fin 0)) (Fin 1) [] =
     marchLoop (cube (uniformField (1 / 20)) 20) (alongX 0) (Fin 6) (Fin 24)
       (Vec3 (Fin (exp (- 1) * exp (- 1) / (4 * pi))) (Fin 0) (Fin 0)) (Fin (exp (- 1)))
       [(Fin 4, Fin 1)]"
proof -
  have 1: "flt (Fin 4) (Fin 6)" by simp
  have 2: "fgt (Fin 1) (Fin (1 / 100))" by (simp add: fgt_def)
  have 3: "stepSize (cube (uniformField (1 / 20)) 20) = Fin 20" by (simp add: cube_def)
  have 4: "sampleDensity (cube (uniformField (1 / 20)) 20)
             (vadd (origin (alongX 0)) (vscale (direction (alongX 0)) (Fin 4))) = Fin (1 / 20)"
    by (simp add: cube_def uniformField_def)
  have 5: "(0 :: real) < 1 / 20" by simp
  show ?thesis
    using march_sample_contribution [OF 1 2 3 4 5 thin_shadow, of 0 0 0 "[]"]
    by (simp add: fadd_def)
qed





section \<open>The claim about the image buffer\<close>

lemma clamp_range: "0 \<le> clamp v 0 1 \<and> clamp v 0 1 \<le> 1"
  by (simp add: clamp_def)

text \<open>
  C10. Outside the range \<open>0 \<le> x < width\<close>, \<open>0 \<le> y < height\<close>, \<open>setPixel\<close> returns the image
  as it was and \<open>getPixel\<close> leaves the three output values as they were; neither has an
  error to signal. Inside the range \<open>setPixel\<close> stores each channel clamped to the interval
  from 0 to 1, at that pixel only, and \<open>getPixel\<close> returns the three stored values as they
  are.
\<close>

theorem pixel_access_guarded:
  "(\<not> (0 \<le> x \<and> x < width img \<and> 0 \<le> y \<and> y < height img) \<longrightarrow>
      setPixel img x y r g b = img \<and> getPixel img x y rgb = rgb) \<and>
   (0 \<le> x \<and> x < width img \<and> 0 \<le> y \<and> y < height img \<longrightarrow>
      red (setPixel img x y r g b) y x = clamp r 0 1 \<and>
      green (setPixel img x y r g b) y x = clamp g 0 1 \<and>
      blue (setPixel img x y r g b) y x = clamp b 0 1 \<and>
      0 \<le> red (setPixel img x y r g b) y x \<and> red (setPixel img x y r g b) y x \<le> 1 \<and>
      0 \<le> green (setPixel img x y r g b) y x \<and> green (setPixel img x y r g b) y x \<le> 1 \<and>
      0 \<le> blue (setPixel img x y r g b) y x \<and> blue (setPixel img x y r g b) y x \<le> 1 \<and>
      (\<forall>row col. (row, col) \<noteq> (y, x) \<longrightarrow>
         red (setPixel img x y r g b) row col = red img row col \<and>
         green (setPixel img x y r g b) row col = green img row col \<and>
         blue (setPixel img x y r g b) row col = blue img row col) \<and>
      width (setPixel img x y r g b) = width img \<and>
      height (setPixel img x y r g b) = height img \<and>
      getPixel img x y rgb = (red img y x, green img y x, blue img y x))"
  by (auto simp add: setPixel_def getPixel_def assign_def clamp_range)

text \<open>
  C10 on a 2 by 2 image: writes at column 2 and at row -1 change nothing, a read at column
  2 keeps the outputs, the values 0.5, 3 and -1 written at (1, 0) are read back as 0.5, 1
  and 0, and a stored 5 (put there through \<open>getRed\<close>) is read back as 5.
\<close>

theorem pixel_access_guarded_witness:
  "setPixel (Image 2 2) 2 0 (1 / 2) 3 (- 1) = Image 2 2 \<and>
   setPixel (Image 2 2) 0 (- 1) (1 / 2) 3 (- 1) = Image 2 2 \<and>
   getPixel (Image 2 2) 2 0 (7, 8, 9) = (7, 8, 9) \<and>
   getPixel (setPixel (Image 2 2) 1 0 (1 / 2) 3 (- 1)) 1 0 (7, 8, 9) = (1 / 2, 1, 0) \<and>
   getPixel ((Image 2 2)\<lparr>red := (\<lambda>row col. 5)\<rparr>) 1 0 (7, 8, 9) = (5, 0, 0)"
  using pixel_access_guarded [of 2 "Image 2 2" 0 "1 / 2" 3 "- 1" "(7, 8, 9)"]
    pixel_access_guarded [of 0 "Image 2 2" "- 1" "1 / 2" 3 "- 1" "(7, 8, 9)"]
    pixel_access_guarded [of 1 "Image 2 2" 0 "1 / 2" 3 "- 1" "(7, 8, 9)"]
    pixel_access_guarded [of 1 "setPixel (Image 2 2) 1 0 (1 / 2) 3 (- 1)" 0 0 0 0 "(7, 8, 9)"]
    pixel_access_guarded [of 1 "(Image 2 2)\<lparr>red := (\<lambda>row col. 5)\<rparr>" 0 0 0 0 "(7, 8, 9)"]
  by (simp add: Image_def clamp_def)

section \<open>The claim about the binary image writer\<close>

lemma those_map_defined:
  "(\<forall>x \<in> set xs. f x \<noteq> None) \<Longrightarrow> those (map f xs) = Some (map (\<lambda>x. the (f x)) xs)"
  by (induction xs) auto

lemma pixelBytes_length: "pixelBytes p = Some bs \<Longrightarrow> length bs = 3"
  by (auto simp: pixelBytes_def split: option.splits)

lemma concat_blocks_length:
  "(\<forall>b \<in> set bs. length b = 3) \<Longrightarrow> length (concat bs) = 3 * length bs"
  by (induction bs) auto

lemma concat_blocks_nth:
  "(\<forall>b \<in> set bs. length b = 3) \<Longrightarrow> i < length bs \<Longrightarrow>
     take 3 (drop (3 * i) (concat bs)) = bs ! i"
proof (induction bs arbitrary: i)
  case Nil
  then show ?case by simp
next
  case (Cons b bs)
  show ?case
  proof (cases i)
    case 0
    with Cons.prems show ?thesis by simp
  next
    case (Suc j)
    with Cons show ?thesis by simp
  qed
qed

lemma channelByte_value:
  "is_finite c \<Longrightarrow> 0 \<le> rval c \<Longrightarrow>
     channelByte c = Some (char_of (nat \<lfloor>min (rval c * 255) 255\<rfloor>))"
  by (cases c)
     (auto simp add: channelByte_def toUChar_def fmul_def fmin_def mk_def min_def)

lemma channelByte_clamped: "is_finite c \<Longrightarrow> 1 \<le> rval c \<Longrightarrow> channelByte c = Some (CHR 0xFF)"
  by (simp add: channelByte_value min_def char_of_def bit_Suc_0_iff)

lemma saveToPPM_defined:
  assumes "\<forall>p \<in> set pixels. pixelBytes p \<noteq> None"
  shows "saveToPPM pixels w h =
           Some (ppmHeader w h @ concat (map (\<lambda>p. the (pixelBytes p)) pixels))"
    and "length (concat (map (\<lambda>p. the (pixelBytes p)) pixels)) = 3 * length pixels"
    and "i < length pixels \<Longrightarrow>
           take 3 (drop (3 * i) (concat (map (\<lambda>p. the (pixelBytes p)) pixels))) =
             the (pixelBytes (pixels ! i))"
proof -
  show "saveToPPM pixels w h =
           Some (ppmHeader w h @ concat (map (\<lambda>p. the (pixelBytes p)) pixels))"
    using assms by (simp add: saveToPPM_def those_map_defined)
  have len: "\<forall>b \<in> set (map (\<lambda>p. the (pixelBytes p)) pixels). length b = 3"
    using assms pixelBytes_length by fastforce
  show "length (concat (map (\<lambda>p. the (pixelBytes p)) pixels)) = 3 * length pixels"
    using concat_blocks_length [OF len] by simp
  show "take 3 (drop (3 * i) (concat (map (\<lambda>p. the (pixelBytes p)) pixels))) =
             the (pixelBytes (pixels ! i))" if "i < length pixels"
    using concat_blocks_nth [OF len, of i] that by simp
qed

lemma red_square:
  "saveToPPM [Vec3 (Fin 1) (Fin 0) (Fin 0), Vec3 (Fin 1) (Fin 0) (Fin 0),
              Vec3 (Fin 1) (Fin 0) (Fin 0), Vec3 (Fin 1) (Fin 0) (Fin 0)] 2 2 =
     Some (''P6\<newline>2 2\<newline>255\<newline>'' @
           [CHR 0xFF, CHR 0x00, CHR 0x00, CHR 0xFF, CHR 0x00, CHR 0x00,
            CHR 0xFF, CHR 0x00, CHR 0x00, CHR 0xFF, CHR 0x00, CHR 0x00])"
  by (simp add: saveToPPM_def ppmHeader_def showInt_def pixelBytes_def channelByte_def
      toUChar_def fmul_def mk_def fmin_def char_of_def bit_Suc_0_iff)

lemma pixelBytes_value:
  assumes "is_finite cr" "0 \<le> rval cr" "is_finite cg" "0 \<le> rval cg" "is_finite cb" "0 \<le> rval cb"
  shows "pixelBytes (Vec3 cr cg cb) =
           Some [char_of (nat \<lfloor>min (rval cr * 255) 255\<rfloor>),
                 char_of (nat \<lfloor>min (rval cg * 255) 255\<rfloor>),
                 char_of (nat \<lfloor>min (rval cb * 255) 255\<rfloor>)]"
  using assms by (simp add: pixelBytes_def channelByte_value)

lemma row_major_index:
  fixes x y w h :: int
  assumes "0 \<le> x" "x < w" "0 \<le> y" "y < h"
  shows "0 \<le> y * w + x \<and> y * w + x < w * h"
proof -
  have "y * w + x < y * w + w" using assms by simp
  also have "\<dots> = (y + 1) * w" by (simp add: algebra_simps)
  also have "\<dots> \<le> h * w" using assms by (intro mult_right_mono) simp_all
  finally have "y * w + x < w * h" by (simp add: mult.commute)
  moreover have "0 \<le> y * w" using assms by simp
  ultimately show ?thesis using assms by simp
qed

text \<open>
  C8. Both writers start with the header \<open>P6\<close>, newline, the width, a space, the height,
  newline, \<open>255\<close>, newline. \<open>saveToPPM\<close> then writes three bytes for each element of
  \<open>pixels\<close>, in the order of the vector, so that a vector of \<open>width \<times> height\<close> colours gives
  that many triplets and the colour that the caller put at index \<open>y \<times> width + x\<close> is the
  triplet number \<open>y \<times> width + x\<close>: row after row, from row 0. A channel \<open>c\<close> that is finite
  and not negative becomes the byte \<open>\<lfloor>min (c \<times> 255) 255\<rfloor>\<close>. \<open>saveSliceToPPM\<close> writes the
  three bytes of each colour as they are. Four pixels (1, 0, 0) with width 2 and height 2
  give the header \<open>P6\<close>, \<open>2 2\<close>, \<open>255\<close> and the bytes 255, 0, 0 four times.
\<close>

theorem ppm_writer_layout:
  "ppmHeader w h = ''P6\<newline>'' @ showInt w @ '' '' @ showInt h @ ''\<newline>255\<newline>'' \<and>
   ((\<forall>p \<in> set pixels. pixelBytes p \<noteq> None) \<longrightarrow>
      saveToPPM pixels w h =
        Some (ppmHeader w h @ concat (map (\<lambda>p. the (pixelBytes p)) pixels)) \<and>
      length (concat (map (\<lambda>p. the (pixelBytes p)) pixels)) = 3 * length pixels \<and>
      (\<forall>i < length pixels.
         take 3 (drop (3 * i) (concat (map (\<lambda>p. the (pixelBytes p)) pixels))) =
           the (pixelBytes (pixels ! i)))) \<and>
   ((\<forall>p \<in> set pixels. pixelBytes p \<noteq> None) \<and> int (length pixels) = w * h \<and>
    0 \<le> x \<and> x < w \<and> 0 \<le> y \<and> y < h \<longrightarrow>
      length (concat (map (\<lambda>p. the (pixelBytes p)) pixels)) = 3 * nat (w * h) \<and>
      take 3 (drop (3 * nat (y * w + x)) (concat (map (\<lambda>p. the (pixelBytes p)) pixels))) =
        the (pixelBytes (pixels ! nat (y * w + x)))) \<and>
   (is_finite cr \<and> 0 \<le> rval cr \<and> is_finite cg \<and> 0 \<le> rval cg \<and>
    is_finite cb \<and> 0 \<le> rval cb \<longrightarrow>
      pixelBytes (Vec3 cr cg cb) =
        Some [char_of (nat \<lfloor>min (rval cr * 255) 255\<rfloor>),
              char_of (nat \<lfloor>min (rval cg * 255) 255\<rfloor>),
              char_of (nat \<lfloor>min (rval cb * 255) 255\<rfloor>)]) \<and>
   saveSliceToPPM colors w h =
     ppmHeader w h @ concat (map (\<lambda>c. [byteR c, byteG c, byteB c]) colors) \<and>
   length (concat (map (\<lambda>c. [byteR c, byteG c, byteB c]) colors)) = 3 * length colors \<and>
   saveToPPM [Vec3 (Fin 1) (Fin 0) (Fin 0), Vec3 (Fin 1) (Fin 0) (Fin 0),
              Vec3 (Fin 1) (Fin 0) (Fin 0), Vec3 (Fin 1) (Fin 0) (Fin 0)] 2 2 =
     Some (''P6\<newline>2 2\<newline>255\<newline>'' @
           [CHR 0xFF, CHR 0x00, CHR 0x00, CHR 0xFF, CHR 0x00, CHR 0x00,
            CHR 0xFF, CHR 0x00, CHR 0x00, CHR 0xFF, CHR 0x00, CHR 0x00])"
proof (intro conjI impI allI)
  show "ppmHeader w h = ''P6\<newline>'' @ showInt w @ '' '' @ showInt h @ ''\<newline>255\<newline>''"
    by (simp add: ppmHeader_def)
next
  assume "\<forall>p \<in> set pixels. pixelBytes p \<noteq> None"
  then show "saveToPPM pixels w h =
        Some (ppmHeader w h @ concat (map (\<lambda>p. the (pixelBytes p)) pixels))"
    by (rule saveToPPM_defined)
next
  assume "\<forall>p \<in> set pixels. pixelBytes p \<noteq> None"
  then show "length (concat (map (\<lambda>p. the (pixelBytes p)) pixels)) = 3 * length pixels"
    by (rule saveToPPM_defined)
next
  fix i
  assume "\<forall>p \<in> set pixels. pixelBytes p \<noteq> None" "i < length pixels"
  then show "take 3 (drop (3 * i) (concat (map (\<lambda>p. the (pixelBytes p)) pixels))) =
           the (pixelBytes (pixels ! i))"
    by (rule saveToPPM_defined)
next
  assume a: "(\<forall>p \<in> set pixels. pixelBytes p \<noteq> None) \<and> int (length pixels) = w * h \<and>
    0 \<le> x \<and> x < w \<and> 0 \<le> y \<and> y < h"
  then show "length (concat (map (\<lambda>p. the (pixelBytes p)) pixels)) = 3 * nat (w * h)"
    using saveToPPM_defined(2) [of pixels] by (metis nat_int)
next
  assume a: "(\<forall>p \<in> set pixels. pixelBytes p \<noteq> None) \<and> int (length pixels) = w * h \<and>
    0 \<le> x \<and> x < w \<and> 0 \<le> y \<and> y < h"
  then have "nat (y * w + x) < length pixels"
    using row_major_index [of x w y h] by linarith
  with a show "take 3 (drop (3 * nat (y * w + x)) (concat (map (\<lambda>p. the (pixelBytes p)) pixels))) =
        the (pixelBytes (pixels ! nat (y * w + x)))"
    using saveToPPM_defined(3) by blast
next
  assume "is_finite cr \<and> 0 \<le> rval cr \<and> is_finite cg \<and> 0 \<le> rval cg \<and>
    is_finite cb \<and> 0 \<le> rval cb"
  then show "pixelBytes (Vec3 cr cg cb) =
        Some [char_of (nat \<lfloor>min (rval cr * 255) 255\<rfloor>),
              char_of (nat \<lfloor>min (rval cg * 255) 255\<rfloor>),
              char_of (nat \<lfloor>min (rval cb * 255) 255\<rfloor>)]"
    by (simp add: pixelBytes_value)
next
  show "saveSliceToPPM colors w h =
     ppmHeader w h @ concat (map (\<lambda>c. [byteR c, byteG c, byteB c]) colors)"
    by (simp add: saveSliceToPPM_def)
next
  show "length (concat (map (\<lambda>c. [byteR c, byteG c, byteB c]) colors)) = 3 * length colors"
    by (induction colors) simp_all
next
  show "saveToPPM [Vec3 (Fin 1) (Fin 0) (Fin 0), Vec3 (Fin 1) (Fin 0) (Fin 0),
              Vec3 (Fin 1) (Fin 0) (Fin 0), Vec3 (Fin 1) (Fin 0) (Fin 0)] 2 2 =
     Some (''P6\<newline>2 2\<newline>255\<newline>'' @
           [CHR 0xFF, CHR 0x00, CHR 0x00, CHR 0xFF, CHR 0x00, CHR 0x00,
            CHR 0xFF, CHR 0x00, CHR 0x00, CHR 0xFF, CHR 0x00, CHR 0x00])"
    by (rule red_square)
qed

text \<open>
  C8 on a row of two pixels, (0.5, 2, 0) and (0, 0, 1): the bytes 127, 255, 0 and
  0, 0, 255 after the header of a 2 by 1 image.
\<close>

theorem ppm_writer_layout_witness:
  "saveToPPM [Vec3 (Fin (1 / 2)) (Fin 2) (Fin 0), Vec3 (Fin 0) (Fin 0) (Fin 1)] 2 1 =
     Some (''P6\<newline>2 1\<newline>255\<newline>'' @
           [CHR 0x7F, CHR 0xFF, CHR 0x00, CHR 0x00, CHR 0x00, CHR 0xFF]) \<and>
   pixelBytes (Vec3 (Fin (1 / 2)) (Fin 2) (Fin 0)) = Some [CHR 0x7F, CHR 0xFF, CHR 0x00] \<and>
   pixelBytes (Vec3 (Fin 0) (Fin 0) (Fin 1)) = Some [CHR 0x00, CHR 0x00, CHR 0xFF]"
proof -
  have f1: "\<lfloor>255 / 2 :: real\<rfloor> = 127" by linarith
  have p1: "pixelBytes (Vec3 (Fin (1 / 2)) (Fin 2) (Fin 0)) = Some [CHR 0x7F, CHR 0xFF, CHR 0x00]"
    using ppm_writer_layout [where cr = "Fin (1 / 2)" and cg = "Fin 2" and cb = "Fin 0"]
    by (simp add: min_def f1 char_of_def bit_Suc_0_iff)
  have p2: "pixelBytes (Vec3 (Fin 0) (Fin 0) (Fin 1)) = Some [CHR 0x00, CHR 0x00, CHR 0xFF]"
    using ppm_writer_layout [where cr = "Fin 0" and cg = "Fin 0" and cb = "Fin 1"]
    by (simp add: min_def char_of_def bit_Suc_0_iff)
  show ?thesis
    using ppm_writer_layout
      [where pixels = "[Vec3 (Fin (1 / 2)) (Fin 2) (Fin 0), Vec3 (Fin 0) (Fin 0) (Fin 1)]"
         and w = 2 and h = 1 and x = 1 and y = 0]
    by (simp add: p1 p2 ppmHeader_def showInt_def char_of_def bit_Suc_0_iff)
qed

section \<open>The claim about the camera bases\<close>

lemma squaredNorm_nonneg: "0 \<le> squaredNorm a"
  by (simp add: squaredNorm_def dot3_def)

lemma squaredNorm_zero_iff: "squaredNorm a = 0 \<longleftrightarrow> a = Vector3d 0 0 0"
  by (cases a) (auto simp add: squaredNorm_def dot3_def add_nonneg_eq_0_iff)

lemma dot3_commute: "dot3 a b = dot3 b a"
  by (simp add: dot3_def mult.commute)

lemma dot3_cross3_left: "dot3 a (cross3 a b) = 0"
  by (simp add: dot3_def cross3_def algebra_simps)

lemma dot3_cross3_right: "dot3 b (cross3 a b) = 0"
  by (simp add: dot3_def cross3_def algebra_simps)

lemma lagrange: "squaredNorm (cross3 a b) = squaredNorm a * squaredNorm b - (dot3 a b)\<^sup>2"
  by (simp add: squaredNorm_def dot3_def cross3_def power2_eq_square algebra_simps)

lemma normalized_unit:
  assumes "a \<noteq> Vector3d 0 0 0"
  shows "squaredNorm (normalized a) = 1"
proof -
  let ?z = "ex a * ex a + ey a * ey a + ez a * ez a"
  have "0 \<le> ?z" "?z \<noteq> 0"
    using assms squaredNorm_nonneg [of a] squaredNorm_zero_iff [of a]
    by (simp_all add: squaredNorm_def dot3_def)
  then have z: "0 < ?z" by linarith
  have "squaredNorm (normalized a) = ex a * ex a / ?z + ey a * ey a / ?z + ez a * ez a / ?z"
    using z by (simp add: normalized_def Let_def squaredNorm_def dot3_def)
  also have "\<dots> = ?z / ?z" by (simp only: add_divide_distrib)
  finally show ?thesis using z by simp
qed

lemma normalized_scale:
  "a \<noteq> Vector3d 0 0 0 \<Longrightarrow> normalized a = scale3 a (1 / norm3 a)"
  using squaredNorm_nonneg [of a] squaredNorm_zero_iff [of a]
  by (simp add: normalized_def Let_def scale3_def norm3_def)

lemma normalized_of_unit: "squaredNorm a = 1 \<Longrightarrow> normalized a = a"
  by (cases a) (simp add: normalized_def Let_def)

lemma dot3_scale3_left: "dot3 (scale3 a k) b = k * dot3 a b"
  by (simp add: dot3_def scale3_def algebra_simps)

lemma dot3_scale3_right: "dot3 a (scale3 b k) = k * dot3 a b"
  by (simp add: dot3_def scale3_def algebra_simps)

lemma cross3_scale3_left: "cross3 (scale3 a k) b = scale3 (cross3 a b) k"
  by (simp add: cross3_def scale3_def algebra_simps)

lemma scale3_eq_zero: "scale3 a k = Vector3d 0 0 0 \<longleftrightarrow> k = 0 \<or> a = Vector3d 0 0 0"
  by (cases a) (auto simp add: scale3_def)

lemma norm3_pos: "a \<noteq> Vector3d 0 0 0 \<Longrightarrow> 0 < norm3 a"
  using squaredNorm_nonneg [of a] squaredNorm_zero_iff [of a] by (simp add: norm3_def)

text \<open>
  The basis that both cameras derive: the unit view direction, the unit vector across it
  and the given up vector, and the unit vector across those two.
\<close>

lemma basis_orthonormal:
  assumes d: "d \<noteq> Vector3d 0 0 0" and c: "cross3 d u \<noteq> Vector3d 0 0 0"
  defines "f \<equiv> normalized d"
  defines "r \<equiv> normalized (cross3 f u)"
  shows "squaredNorm f = 1" "squaredNorm r = 1" "dot3 f r = 0"
    "squaredNorm (cross3 r f) = 1" "squaredNorm (cross3 f r) = 1"
proof -
  show f1: "squaredNorm f = 1" unfolding f_def using d by (rule normalized_unit)
  have fs: "f = scale3 d (1 / norm3 d)" unfolding f_def using d by (rule normalized_scale)
  have "cross3 f u = scale3 (cross3 d u) (1 / norm3 d)" by (simp add: fs cross3_scale3_left)
  then have nz: "cross3 f u \<noteq> Vector3d 0 0 0"
    using c norm3_pos [OF d] by (simp add: scale3_eq_zero)
  show r1: "squaredNorm r = 1" unfolding r_def using nz by (rule normalized_unit)
  have rs: "r = scale3 (cross3 f u) (1 / norm3 (cross3 f u))"
    unfolding r_def using nz by (rule normalized_scale)
  show fr: "dot3 f r = 0" by (simp add: rs dot3_scale3_right dot3_cross3_left)
  then have rf: "dot3 r f = 0" by (simp add: dot3_commute)
  show "squaredNorm (cross3 r f) = 1" by (simp add: lagrange f1 r1 rf)
  show "squaredNorm (cross3 f r) = 1" by (simp add: lagrange f1 r1 fr)
qed

lemma norm3_one_iff: "norm3 a = 1 \<longleftrightarrow> squaredNorm a = 1"
  by (simp add: norm3_def)

lemma updateVectors_orthonormal:
  assumes "lookAt cam \<noteq> position cam"
    and "cross3 (minus3 (lookAt cam) (position cam)) (up cam) \<noteq> Vector3d 0 0 0"
  shows "orthonormal (forward (updateVectors cam)) (right (updateVectors cam))
           (upVector (updateVectors cam))"
proof -
  let ?d = "minus3 (lookAt cam) (position cam)"
  let ?f = "normalized ?d"
  let ?r = "normalized (cross3 ?f (up cam))"
  have d: "?d \<noteq> Vector3d 0 0 0"
    using assms(1) by (cases "lookAt cam"; cases "position cam") (auto simp add: minus3_def)
  note b = basis_orthonormal [OF d assms(2)]
  have u: "normalized (cross3 ?r ?f) = cross3 ?r ?f" using b(4) by (rule normalized_of_unit)
  have "forward (updateVectors cam) = ?f" "right (updateVectors cam) = ?r"
       "upVector (updateVectors cam) = cross3 ?r ?f"
    by (simp_all add: updateVectors_def Let_def u)
  then show ?thesis
    using b by (simp add: orthonormal_def norm3_one_iff dot3_cross3_left dot3_cross3_right)
qed

text \<open>Finite values and vectors compute as the reals they stand for.\<close>

lemma finite_fdiv:
  "is_finite a \<Longrightarrow> is_finite b \<Longrightarrow> rval b \<noteq> 0 \<Longrightarrow>
     is_finite (fdiv a b) \<and> rval (fdiv a b) = rval a / rval b"
  by (cases a; cases b) (simp_all add: fdiv_def)

lemma finite_fsqrt:
  "is_finite a \<Longrightarrow> 0 \<le> rval a \<Longrightarrow> is_finite (fsqrt a) \<and> rval (fsqrt a) = sqrt (rval a)"
  by (cases a) simp_all

lemma finite_ftan: "is_finite a \<Longrightarrow> is_finite (ftan a) \<and> rval (ftan a) = tan (rval a)"
  by (cases a) simp_all

lemma rvec_vsub: "vfinite a \<Longrightarrow> vfinite b \<Longrightarrow> vfinite (vsub a b) \<and> rvec (vsub a b) = minus3 (rvec a) (rvec b)"
  by (simp add: vfinite_def rvec_def vsub_def minus3_def finite_fsub)

lemma rvec_vadd: "vfinite a \<Longrightarrow> vfinite b \<Longrightarrow> vfinite (vadd a b) \<and> rvec (vadd a b) = plus3 (rvec a) (rvec b)"
  by (simp add: vfinite_def rvec_def vadd_def plus3_def finite_fadd)

lemma rvec_vscale: "vfinite a \<Longrightarrow> is_finite k \<Longrightarrow> vfinite (vscale a k) \<and> rvec (vscale a k) = scale3 (rvec a) (rval k)"
  by (simp add: vfinite_def rvec_def vscale_def scale3_def finite_fmul)

lemma rvec_cross: "vfinite a \<Longrightarrow> vfinite b \<Longrightarrow> vfinite (cross a b) \<and> rvec (cross a b) = cross3 (rvec a) (rvec b)"
  by (simp add: vfinite_def rvec_def cross_def cross3_def finite_fsub finite_fmul)

lemma rval_dot: "vfinite a \<Longrightarrow> vfinite b \<Longrightarrow> is_finite (dot a b) \<and> rval (dot a b) = dot3 (rvec a) (rvec b)"
  by (simp add: vfinite_def rvec_def dot_def dot3_def finite_fadd finite_fmul)

lemma rval_vlength: "vfinite a \<Longrightarrow> is_finite (vlength a) \<and> rval (vlength a) = norm3 (rvec a)"
proof -
  assume a: "vfinite a"
  let ?s = "fadd (fadd (fmul (vx a) (vx a)) (fmul (vy a) (vy a))) (fmul (vz a) (vz a))"
  have s: "is_finite ?s" "rval ?s = squaredNorm (rvec a)"
    using a by (simp_all add: vfinite_def rvec_def squaredNorm_def dot3_def finite_fadd finite_fmul)
  then have "0 \<le> rval ?s" by (simp add: squaredNorm_nonneg)
  with s show ?thesis by (simp add: vlength_def norm3_def finite_fsqrt)
qed

lemma rvec_normalize:
  assumes a: "vfinite a" and nz: "rvec a \<noteq> Vector3d 0 0 0"
  shows "vfinite (normalize a) \<and> rvec (normalize a) = normalized (rvec a)"
proof -
  have l: "is_finite (vlength a)" "rval (vlength a) = norm3 (rvec a)"
    using rval_vlength [OF a] by simp_all
  have p: "0 < squaredNorm (rvec a)"
    using nz squaredNorm_nonneg [of "rvec a"] squaredNorm_zero_iff [of "rvec a"] by linarith
  then have "rval (vlength a) \<noteq> 0" by (simp add: l norm3_def)
  then show ?thesis
    using a l p by (simp add: normalize_def Let_def vfinite_def rvec_def normalized_def
        finite_fdiv norm3_def squaredNorm_def dot3_def)
qed

lemma norm3_scale3: "norm3 (scale3 a k) = \<bar>k\<bar> * norm3 a"
proof -
  have "squaredNorm (scale3 a k) = k\<^sup>2 * squaredNorm a"
    by (simp add: squaredNorm_def dot3_def scale3_def power2_eq_square algebra_simps)
  then show ?thesis by (simp add: norm3_def real_sqrt_mult)
qed

lemma volume_camera_basis:
  assumes fin: "vfinite pos" "vfinite target" "vfinite upVec" "is_finite fieldOfView" "is_finite aspect"
    and d: "rvec target \<noteq> rvec pos"
    and c: "cross3 (minus3 (rvec target) (rvec pos)) (rvec upVec) \<noteq> Vector3d 0 0 0"
  defines "cam \<equiv> newVolumeCamera pos target upVec fieldOfView aspect"
  defines "k \<equiv> tan (rval fieldOfView * (1 / 2) * pi / 180)"
  shows "vfinite (camForward cam)" "vfinite (camRight cam)" "vfinite (camUp cam)"
    "norm3 (rvec (camForward cam)) = 1"
    "norm3 (rvec (camRight cam)) = \<bar>k * rval aspect\<bar>"
    "norm3 (rvec (camUp cam)) = \<bar>k\<bar>"
    "dot3 (rvec (camForward cam)) (rvec (camRight cam)) = 0"
    "dot3 (rvec (camForward cam)) (rvec (camUp cam)) = 0"
    "dot3 (rvec (camRight cam)) (rvec (camUp cam)) = 0"
proof -
  let ?d = "minus3 (rvec target) (rvec pos)"
  let ?f = "normalized ?d"
  let ?r = "normalized (cross3 ?f (rvec upVec))"
  let ?u = "cross3 ?f ?r"
  have dz: "?d \<noteq> Vector3d 0 0 0"
    using d by (cases "rvec target"; cases "rvec pos") (auto simp add: minus3_def)
  note b = basis_orthonormal [OF dz c]
  let ?F = "normalize (vsub target pos)"
  have F: "vfinite ?F" "rvec ?F = ?f"
    using rvec_vsub [OF fin(2,1)] dz by (simp_all add: rvec_normalize)
  let ?R = "normalize (cross ?F upVec)"
  have cz: "cross3 ?f (rvec upVec) \<noteq> Vector3d 0 0 0"
  proof -
    have "cross3 ?f (rvec upVec) = scale3 (cross3 ?d (rvec upVec)) (1 / norm3 ?d)"
      by (simp add: normalized_scale [OF dz] cross3_scale3_left)
    then show ?thesis using c norm3_pos [OF dz] by (simp add: scale3_eq_zero)
  qed
  have R: "vfinite ?R" "rvec ?R = ?r"
    using rvec_cross [OF F(1) fin(3)] cz by (simp_all add: rvec_normalize F)
  let ?U = "normalize (cross ?F ?R)"
  have uz: "?u \<noteq> Vector3d 0 0 0"
    using b(5) squaredNorm_zero_iff [of ?u] by auto
  have U: "vfinite ?U" "rvec ?U = ?u"
    using rvec_cross [OF F(1) R(1)] uz b(5)
    by (simp_all add: rvec_normalize F R normalized_of_unit)
  let ?t = "ftan (fdiv (fmul (fmul fieldOfView (Fin (1 / 2))) (Fin pi)) (Fin 180))"
  have t: "is_finite ?t" "rval ?t = k"
    using fin(4) by (simp_all add: k_def finite_ftan finite_fdiv finite_fmul)
  have ta: "is_finite (fmul ?t aspect)" "rval (fmul ?t aspect) = k * rval aspect"
    using t fin(5) by (simp_all add: finite_fmul)
  have cf: "camForward cam = ?F" and cr: "camRight cam = vscale ?R (fmul ?t aspect)"
    and cu: "camUp cam = vscale ?U ?t"
    by (simp_all add: cam_def newVolumeCamera_def Let_def)
  have rr: "rvec (camRight cam) = scale3 ?r (k * rval aspect)"
    using rvec_vscale [OF R(1) ta(1)] by (simp add: cr R ta)
  have ru: "rvec (camUp cam) = scale3 ?u k"
    using rvec_vscale [OF U(1) t(1)] by (simp add: cu U t)
  show "vfinite (camForward cam)" by (simp add: cf F)
  show "vfinite (camRight cam)" using rvec_vscale [OF R(1) ta(1)] by (simp add: cr)
  show "vfinite (camUp cam)" using rvec_vscale [OF U(1) t(1)] by (simp add: cu)
  show "norm3 (rvec (camForward cam)) = 1" by (simp add: cf F norm3_one_iff b)
  have n1: "norm3 ?r = 1" "norm3 ?u = 1" using b(2,5) by (simp_all add: norm3_one_iff)
  show "norm3 (rvec (camRight cam)) = \<bar>k * rval aspect\<bar>"
    by (simp add: rr norm3_scale3 n1)
  show "norm3 (rvec (camUp cam)) = \<bar>k\<bar>"
    by (simp add: ru norm3_scale3 n1)
  show "dot3 (rvec (camForward cam)) (rvec (camRight cam)) = 0"
    using b(3) by (simp add: cf F rr dot3_scale3_right)
  show "dot3 (rvec (camForward cam)) (rvec (camUp cam)) = 0"
    by (simp add: cf F ru dot3_scale3_right dot3_cross3_left)
  show "dot3 (rvec (camRight cam)) (rvec (camUp cam)) = 0"
    by (simp add: rr ru dot3_scale3_right dot3_scale3_left dot3_cross3_right)
qed

text \<open>
  A camera at the origin that looks along the negative z axis, with a field of view of 90
  degrees and the aspect ratio 2.
\<close>

lemma simple_camera:
  "newVolumeCamera (Vec3 (Fin 0) (Fin 0) (Fin 0)) (Vec3 (Fin 0) (Fin 0) (Fin (- 1)))
      (Vec3 (Fin 0) (Fin 1) (Fin 0)) (Fin 90) (Fin 2) =
    \<lparr>camPosition = Vec3 (Fin 0) (Fin 0) (Fin 0), camForward = Vec3 (Fin 0) (Fin 0) (Fin (- 1)),
     camRight = Vec3 (Fin 2) NZero (Fin 0), camUp = Vec3 (Fin 0) (Fin (- 1)) NZero\<rparr>"
  apply (simp add: newVolumeCamera_def Let_def normalize_def vlength_def cross_def vsub_def vscale_def)
  apply (simp add: float_eval tan_45)
  done

text \<open>
  C7, as amended. The camera of Camera.h has an orthonormal basis after its constructor
  and after \<open>setPosition\<close>, \<open>setLookAt\<close> and \<open>setUp\<close>, provided the point looked at is not
  the position and the up vector is not along the line of sight (their cross product is
  not zero). The camera of the volume renderer, built from finite vectors under the same
  proviso, has a unit \<open>forward\<close> and three mutually orthogonal vectors, but its \<open>right\<close> and
  \<open>up\<close> have the lengths \<open>|tan (fov / 2) \<times> aspect|\<close> and \<open>|tan (fov / 2)|\<close>: the constructor
  scales them for \<open>getRay\<close>.
\<close>

theorem camera_basis:
  "(target \<noteq> pos \<and> cross3 (minus3 target pos) upDir \<noteq> Vector3d 0 0 0 \<longrightarrow>
      (let c = newCamera pos target upDir fieldOfView ratio near far
       in orthonormal (forward c) (right c) (upVector c))) \<and>
   (lookAt cam \<noteq> p \<and> cross3 (minus3 (lookAt cam) p) (up cam) \<noteq> Vector3d 0 0 0 \<longrightarrow>
      (let c = setPosition cam p in orthonormal (forward c) (right c) (upVector c))) \<and>
   (q \<noteq> position cam \<and> cross3 (minus3 q (position cam)) (up cam) \<noteq> Vector3d 0 0 0 \<longrightarrow>
      (let c = setLookAt cam q in orthonormal (forward c) (right c) (upVector c))) \<and>
   (lookAt cam \<noteq> position cam \<and>
    cross3 (minus3 (lookAt cam) (position cam)) u \<noteq> Vector3d 0 0 0 \<longrightarrow>
      (let c = setUp cam u in orthonormal (forward c) (right c) (upVector c))) \<and>
   (vfinite vpos \<and> vfinite vtarget \<and> vfinite upVec \<and> is_finite vfov \<and> is_finite aspect \<and>
    rvec vtarget \<noteq> rvec vpos \<and>
    cross3 (minus3 (rvec vtarget) (rvec vpos)) (rvec upVec) \<noteq> Vector3d 0 0 0 \<longrightarrow>
      (let c = newVolumeCamera vpos vtarget upVec vfov aspect;
           k = tan (rval vfov * (1 / 2) * pi / 180)
       in vfinite (camForward c) \<and> vfinite (camRight c) \<and> vfinite (camUp c) \<and>
          norm3 (rvec (camForward c)) = 1 \<and>
          norm3 (rvec (camRight c)) = \<bar>k * rval aspect\<bar> \<and>
          norm3 (rvec (camUp c)) = \<bar>k\<bar> \<and>
          dot3 (rvec (camForward c)) (rvec (camRight c)) = 0 \<and>
          dot3 (rvec (camForward c)) (rvec (camUp c)) = 0 \<and>
          dot3 (rvec (camRight c)) (rvec (camUp c)) = 0))"
proof (intro conjI impI)
  assume "target \<noteq> pos \<and> cross3 (minus3 target pos) upDir \<noteq> Vector3d 0 0 0"
  then show "let c = newCamera pos target upDir fieldOfView ratio near far
       in orthonormal (forward c) (right c) (upVector c)"
    unfolding newCamera_def Let_def by (intro updateVectors_orthonormal) simp_all
next
  assume "lookAt cam \<noteq> p \<and> cross3 (minus3 (lookAt cam) p) (up cam) \<noteq> Vector3d 0 0 0"
  then show "let c = setPosition cam p in orthonormal (forward c) (right c) (upVector c)"
    unfolding setPosition_def Let_def by (intro updateVectors_orthonormal) simp_all
next
  assume "q \<noteq> position cam \<and> cross3 (minus3 q (position cam)) (up cam) \<noteq> Vector3d 0 0 0"
  then show "let c = setLookAt cam q in orthonormal (forward c) (right c) (upVector c)"
    unfolding setLookAt_def Let_def by (intro updateVectors_orthonormal) simp_all
next
  assume "lookAt cam \<noteq> position cam \<and>
    cross3 (minus3 (lookAt cam) (position cam)) u \<noteq> Vector3d 0 0 0"
  then show "let c = setUp cam u in orthonormal (forward c) (right c) (upVector c)"
    unfolding setUp_def Let_def by (intro updateVectors_orthonormal) simp_all
next
  assume a: "vfinite vpos \<and> vfinite vtarget \<and> vfinite upVec \<and> is_finite vfov \<and> is_finite aspect \<and>
    rvec vtarget \<noteq> rvec vpos \<and>
    cross3 (minus3 (rvec vtarget) (rvec vpos)) (rvec upVec) \<noteq> Vector3d 0 0 0"
  then have f: "vfinite vpos" "vfinite vtarget" "vfinite upVec" "is_finite vfov" "is_finite aspect"
    and d: "rvec vtarget \<noteq> rvec vpos"
    and c: "cross3 (minus3 (rvec vtarget) (rvec vpos)) (rvec upVec) \<noteq> Vector3d 0 0 0"
    by simp_all
  show "let c = newVolumeCamera vpos vtarget upVec vfov aspect;
           k = tan (rval vfov * (1 / 2) * pi / 180)
       in vfinite (camForward c) \<and> vfinite (camRight c) \<and> vfinite (camUp c) \<and>
          norm3 (rvec (camForward c)) = 1 \<and>
          norm3 (rvec (camRight c)) = \<bar>k * rval aspect\<bar> \<and>
          norm3 (rvec (camUp c)) = \<bar>k\<bar> \<and>
          dot3 (rvec (camForward c)) (rvec (camRight c)) = 0 \<and>
          dot3 (rvec (camForward c)) (rvec (camUp c)) = 0 \<and>
          dot3 (rvec (camRight c)) (rvec (camUp c)) = 0"
    unfolding Let_def using volume_camera_basis [OF f d c] by blast
qed

text \<open>
  C7 as stated asks for unit vectors in every camera. The volume renderer's camera with a
  field of view of 90 degrees and the aspect ratio 2 has a \<open>right\<close> vector of length 2, and
  the camera of Camera.h that looks at its own position has the \<open>forward\<close> vector zero.
\<close>

theorem camera_basis_counterexample:
  "camRight (newVolumeCamera (Vec3 (Fin 0) (Fin 0) (Fin 0)) (Vec3 (Fin 0) (Fin 0) (Fin (- 1)))
      (Vec3 (Fin 0) (Fin 1) (Fin 0)) (Fin 90) (Fin 2)) = Vec3 (Fin 2) NZero (Fin 0) \<and>
   vlength (camRight (newVolumeCamera (Vec3 (Fin 0) (Fin 0) (Fin 0))
      (Vec3 (Fin 0) (Fin 0) (Fin (- 1))) (Vec3 (Fin 0) (Fin 1) (Fin 0)) (Fin 90) (Fin 2))) = Fin 2 \<and>
   forward (newCamera (Vector3d 0 0 0) (Vector3d 0 0 0) (Vector3d 0 1 0) 60 (16 / 9) (1 / 10) 1000)
     = Vector3d 0 0 0 \<and>
   norm3 (Vector3d 0 0 0) = 0"
  by (simp add: simple_camera vlength_def float_eval newCamera_def updateVectors_def Let_def
      normalized_def minus3_def squaredNorm_def dot3_def norm3_def)

text \<open>
  The amended C7 on the camera that main.cpp builds, moved, turned and tilted, and on the
  camera that volume\_render.cpp builds: field of view 60 degrees and aspect ratio 4/3,
  so \<open>up\<close> has the length \<open>1 / sqrt 3\<close>.
\<close>

theorem camera_basis_witness:
  "orthonormal
     (forward (newCamera (Vector3d 0 10 20) (Vector3d 0 0 0) (Vector3d 0 1 0) 60 (4 / 3) (1 / 10) 1000))
     (right (newCamera (Vector3d 0 10 20) (Vector3d 0 0 0) (Vector3d 0 1 0) 60 (4 / 3) (1 / 10) 1000))
     (upVector (newCamera (Vector3d 0 10 20) (Vector3d 0 0 0) (Vector3d 0 1 0) 60 (4 / 3) (1 / 10) 1000)) \<and>
   orthonormal
     (forward (setPosition (newCamera (Vector3d 0 10 20) (Vector3d 0 0 0) (Vector3d 0 1 0) 60 (4 / 3) (1 / 10) 1000) (Vector3d 1 2 3)))
     (right (setPosition (newCamera (Vector3d 0 10 20) (Vector3d 0 0 0) (Vector3d 0 1 0) 60 (4 / 3) (1 / 10) 1000) (Vector3d 1 2 3)))
     (upVector (setPosition (newCamera (Vector3d 0 10 20) (Vector3d 0 0 0) (Vector3d 0 1 0) 60 (4 / 3) (1 / 10) 1000) (Vector3d 1 2 3))) \<and>
   orthonormal
     (forward (setLookAt (newCamera (Vector3d 0 10 20) (Vector3d 0 0 0) (Vector3d 0 1 0) 60 (4 / 3) (1 / 10) 1000) (Vector3d 1 2 3)))
     (right (setLookAt (newCamera (Vector3d 0 10 20) (Vector3d 0 0 0) (Vector3d 0 1 0) 60 (4 / 3) (1 / 10) 1000) (Vector3d 1 2 3)))
     (upVector (setLookAt (newCamera (Vector3d 0 10 20) (Vector3d 0 0 0) (Vector3d 0 1 0) 60 (4 / 3) (1 / 10) 1000) (Vector3d 1 2 3))) \<and>
   orthonormal
     (forward (setUp (newCamera (Vector3d 0 10 20) (Vector3d 0 0 0) (Vector3d 0 1 0) 60 (4 / 3) (1 / 10) 1000) (Vector3d 1 0 0)))
     (right (setUp (newCamera (Vector3d 0 10 20) (Vector3d 0 0 0) (Vector3d 0 1 0) 60 (4 / 3) (1 / 10) 1000) (Vector3d 1 0 0)))
     (upVector (setUp (newCamera (Vector3d 0 10 20) (Vector3d 0 0 0) (Vector3d 0 1 0) 60 (4 / 3) (1 / 10) 1000) (Vector3d 1 0 0))) \<and>
   norm3 (rvec (camForward (newVolumeCamera (Vec3 (Fin 5) (Fin 3) (Fin 5)) (Vec3 (Fin 0) (Fin 0) (Fin 0))
      (Vec3 (Fin 0) (Fin 1) (Fin 0)) (Fin 60) (Fin (4 / 3))))) = 1 \<and>
   norm3 (rvec (camUp (newVolumeCamera (Vec3 (Fin 5) (Fin 3) (Fin 5)) (Vec3 (Fin 0) (Fin 0) (Fin 0))
      (Vec3 (Fin 0) (Fin 1) (Fin 0)) (Fin 60) (Fin (4 / 3))))) = 1 / sqrt 3 \<and>
   norm3 (rvec (camRight (newVolumeCamera (Vec3 (Fin 5) (Fin 3) (Fin 5)) (Vec3 (Fin 0) (Fin 0) (Fin 0))
      (Vec3 (Fin 0) (Fin 1) (Fin 0)) (Fin 60) (Fin (4 / 3))))) = 1 / sqrt 3 * (4 / 3)"
proof -
  let ?c = "newCamera (Vector3d 0 10 20) (Vector3d 0 0 0) (Vector3d 0 1 0) 60 (4 / 3) (1 / 10) 1000"
  have c: "position ?c = Vector3d 0 10 20" "lookAt ?c = Vector3d 0 0 0" "up ?c = Vector3d 0 1 0"
    by (simp_all add: newCamera_def updateVectors_def Let_def)
  have k: "tan (60 * (1 / 2) * pi / 180) = 1 / sqrt 3"
  proof -
    have "60 * (1 / 2) * pi / 180 = pi / 6" by simp
    then show ?thesis by (simp only: tan_30)
  qed
  note T = camera_basis [where pos = "Vector3d 0 10 20" and target = "Vector3d 0 0 0"
        and upDir = "Vector3d 0 1 0" and fieldOfView = 60 and ratio = "4 / 3" and near = "1 / 10"
        and far = 1000 and cam = ?c and p = "Vector3d 1 2 3" and q = "Vector3d 1 2 3"
        and u = "Vector3d 1 0 0" and vpos = "Vec3 (Fin 5) (Fin 3) (Fin 5)"
        and vtarget = "Vec3 (Fin 0) (Fin 0) (Fin 0)" and upVec = "Vec3 (Fin 0) (Fin 1) (Fin 0)"
        and vfov = "Fin 60" and aspect = "Fin (4 / 3)", unfolded c Let_def]
  have 1: "orthonormal (forward ?c) (right ?c) (upVector ?c)"
    using T by (simp add: cross3_def minus3_def)
  have 2: "orthonormal (forward (setPosition ?c (Vector3d 1 2 3)))
     (right (setPosition ?c (Vector3d 1 2 3))) (upVector (setPosition ?c (Vector3d 1 2 3)))"
    using T by (simp add: cross3_def minus3_def)
  have 3: "orthonormal (forward (setLookAt ?c (Vector3d 1 2 3)))
     (right (setLookAt ?c (Vector3d 1 2 3))) (upVector (setLookAt ?c (Vector3d 1 2 3)))"
    using T by (simp add: cross3_def minus3_def)
  have 4: "orthonormal (forward (setUp ?c (Vector3d 1 0 0)))
     (right (setUp ?c (Vector3d 1 0 0))) (upVector (setUp ?c (Vector3d 1 0 0)))"
    using T by (simp add: cross3_def minus3_def)
  have 5: "norm3 (rvec (camForward (newVolumeCamera (Vec3 (Fin 5) (Fin 3) (Fin 5)) (Vec3 (Fin 0) (Fin 0) (Fin 0))
      (Vec3 (Fin 0) (Fin 1) (Fin 0)) (Fin 60) (Fin (4 / 3))))) = 1 \<and>
   norm3 (rvec (camUp (newVolumeCamera (Vec3 (Fin 5) (Fin 3) (Fin 5)) (Vec3 (Fin 0) (Fin 0) (Fin 0))
      (Vec3 (Fin 0) (Fin 1) (Fin 0)) (Fin 60) (Fin (4 / 3))))) = \<bar>tan (60 * (1 / 2) * pi / 180)\<bar> \<and>
   norm3 (rvec (camRight (newVolumeCamera (Vec3 (Fin 5) (Fin 3) (Fin 5)) (Vec3 (Fin 0) (Fin 0) (Fin 0))
      (Vec3 (Fin 0) (Fin 1) (Fin 0)) (Fin 60) (Fin (4 / 3))))) = \<bar>tan (60 * (1 / 2) * pi / 180) * (4 / 3)\<bar>"
    using T by (simp add: cross3_def minus3_def vfinite_def rvec_def)
  from 1 2 3 4 5 show ?thesis unfolding k by simp
qed

section \<open>The claim about the command line\<close>

lemma squaredNorm_combination:
  "squaredNorm (plus3 (plus3 f (scale3 r a)) (scale3 u b)) =
     squaredNorm f + a\<^sup>2 * squaredNorm r + b\<^sup>2 * squaredNorm u +
     2 * a * dot3 f r + 2 * b * dot3 f u + 2 * a * b * dot3 r u"
  by (simp add: squaredNorm_def dot3_def plus3_def scale3_def power2_eq_square algebra_simps)

lemma unit_component:
  assumes "vfinite w" "squaredNorm (rvec w) = 1"
  shows "(is_finite (vx w) \<and> \<not> is_zero (vx w)) \<or> (is_finite (vy w) \<and> \<not> is_zero (vy w)) \<or>
         (is_finite (vz w) \<and> \<not> is_zero (vz w))"
proof -
  have z: "is_zero x \<longleftrightarrow> rval x = 0" if "is_finite x" for x
    using that by (cases x) simp_all
  have "rval (vx w) \<noteq> 0 \<or> rval (vy w) \<noteq> 0 \<or> rval (vz w) \<noteq> 0"
    using assms(2) by (auto simp add: rvec_def squaredNorm_def dot3_def)
  then show ?thesis using assms(1) z by (auto simp add: vfinite_def)
qed

text \<open>A ray of the volume renderer's camera has a finite origin and a finite unit direction.\<close>

lemma getRay_unit:
  assumes fin: "vfinite pos" "vfinite target" "vfinite upVec" "is_finite fieldOfView" "is_finite aspect"
    and d: "rvec target \<noteq> rvec pos"
    and c: "cross3 (minus3 (rvec target) (rvec pos)) (rvec upVec) \<noteq> Vector3d 0 0 0"
    and uv: "is_finite u" "is_finite v"
  defines "cam \<equiv> newVolumeCamera pos target upVec fieldOfView aspect"
  shows "vfinite (origin (getRay cam u v))" "vfinite (direction (getRay cam u v))"
    "squaredNorm (rvec (direction (getRay cam u v))) = 1"
proof -
  note b = volume_camera_basis [OF fin d c, folded cam_def]
  let ?a = "fsub (fmul u (Fin 2)) (Fin 1)"
  let ?b = "fsub (fmul v (Fin 2)) (Fin 1)"
  have a: "is_finite ?a" and b': "is_finite ?b"
    using uv by (simp_all add: finite_fsub finite_fmul)
  let ?D = "vadd (vadd (camForward cam) (vscale (camRight cam) ?a)) (vscale (camUp cam) ?b)"
  have D: "vfinite ?D"
    "rvec ?D = plus3 (plus3 (rvec (camForward cam)) (scale3 (rvec (camRight cam)) (rval ?a)))
                 (scale3 (rvec (camUp cam)) (rval ?b))"
    using b(1,2,3) a b' by (simp_all add: rvec_vadd rvec_vscale)
  have "squaredNorm (rvec ?D) =
      1 + (rval ?a)\<^sup>2 * squaredNorm (rvec (camRight cam)) + (rval ?b)\<^sup>2 * squaredNorm (rvec (camUp cam))"
    using b(4,7,8,9) by (simp add: D squaredNorm_combination norm3_one_iff)
  moreover have "0 \<le> (rval ?a)\<^sup>2 * squaredNorm (rvec (camRight cam))"
    "0 \<le> (rval ?b)\<^sup>2 * squaredNorm (rvec (camUp cam))"
    by (simp_all add: squaredNorm_nonneg)
  ultimately have "0 < squaredNorm (rvec ?D)" by linarith
  then have Dz: "rvec ?D \<noteq> Vector3d 0 0 0" using squaredNorm_zero_iff [of "rvec ?D"] by auto
  let ?N = "normalize ?D"
  have N: "vfinite ?N" "rvec ?N = normalized (rvec ?D)"
    using rvec_normalize [OF D(1) Dz] by simp_all
  have N1: "squaredNorm (rvec ?N) = 1" by (simp add: N normalized_unit [OF Dz])
  then have Nz: "rvec ?N \<noteq> Vector3d 0 0 0" using squaredNorm_zero_iff [of "rvec ?N"] by auto
  have NN: "vfinite (normalize ?N)" "rvec (normalize ?N) = rvec ?N"
    using rvec_normalize [OF N(1) Nz] N1 by (simp_all add: normalized_of_unit)
  have g: "getRay cam u v = \<lparr>origin = camPosition cam, direction = normalize ?N\<rparr>"
    by (simp add: getRay_def Let_def Ray_def)
  have "camPosition cam = pos" by (simp add: cam_def newVolumeCamera_def Let_def)
  then show "vfinite (origin (getRay cam u v))" using fin(1) by (simp add: g)
  show "vfinite (direction (getRay cam u v))" by (simp add: g NN)
  show "squaredNorm (rvec (direction (getRay cam u v))) = 1" by (simp add: g NN N1)
qed

lemma those_some:
  "(\<forall>x \<in> set xs. \<exists>y. f x = Some y \<and> P y) \<Longrightarrow>
     \<exists>ys. those (map f xs) = Some ys \<and> (\<forall>y \<in> set ys. P y)"
  by (induction xs) auto

text \<open>The renderer and the camera that \<open>main\<close> builds, on a grid of finite values.\<close>

lemma main_render:
  fixes f :: "vec3 \<Rightarrow> float" and lo hi :: "int \<times> int \<times> int"
  assumes d: "\<And>p. is_finite (f p)"
  defines "camera \<equiv> newVolumeCamera (Vec3 (Fin 5) (Fin 3) (Fin 5)) (Vec3 (Fin 0) (Fin 0) (Fin 0))
                       (Vec3 (Fin 0) (Fin 1) (Fin 0)) (Fin 60) (fdiv (Fin (real 800)) (Fin (real 600)))"
  defines "renderer \<equiv> newVolumeRenderer f lo hi (Vec3 (Fin (- 1)) (Fin 1) (Fin (- 1))) (Fin (1 / 10))"
  shows "\<exists>pixels. render camera renderer 800 600 = Some pixels \<and>
           (\<forall>c \<in> set pixels. \<exists>cr. c = Vec3 (Fin cr) (Fin 0) (Fin 0) \<and> 0 \<le> cr)"
  unfolding render_def
proof (rule those_some, rule ballI)
  fix i :: nat
  assume "i \<in> set [0..<800 * 600]"
  let ?u = "fdiv (fadd (Fin (real (i mod 800))) (Fin (1 / 2))) (Fin (real 800))"
  let ?v = "fdiv (fadd (Fin (real (i div 800))) (Fin (1 / 2))) (Fin (real 600))"
  let ?r = "getRay camera ?u ?v"
  have uv: "is_finite ?u" "is_finite ?v" by (simp_all add: finite_fdiv fadd_def)
  have asp: "is_finite (fdiv (Fin (real 800)) (Fin (real 600)))" by (simp add: finite_fdiv)
  have cam: "vfinite (Vec3 (Fin 5) (Fin 3) (Fin 5))" "vfinite (Vec3 (Fin 0) (Fin 0) (Fin 0))"
    "vfinite (Vec3 (Fin 0) (Fin 1) (Fin 0))" "is_finite (Fin 60)"
    "rvec (Vec3 (Fin 0) (Fin 0) (Fin 0)) \<noteq> rvec (Vec3 (Fin 5) (Fin 3) (Fin 5))"
    "cross3 (minus3 (rvec (Vec3 (Fin 0) (Fin 0) (Fin 0))) (rvec (Vec3 (Fin 5) (Fin 3) (Fin 5))))
       (rvec (Vec3 (Fin 0) (Fin 1) (Fin 0))) \<noteq> Vector3d 0 0 0"
    by (simp_all add: vfinite_def rvec_def minus3_def cross3_def)
  note g = getRay_unit [OF cam(1,2,3,4) asp cam(5,6) uv, folded camera_def]
  have ray: "vfinite (origin ?r)" "vfinite (direction ?r)" "squaredNorm (rvec (direction ?r)) = 1"
    using g by simp_all
  obtain lx ly lz hx hy hz where lh: "lo = (lx, ly, lz)" "hi = (hx, hy, hz)"
    by (cases lo; cases hi) auto
  have R: "stepSize renderer = Fin (1 / 10)" "sampleDensity renderer = f"
    "t0 renderer = Vec3 (Fin (of_int lx)) (Fin (of_int ly)) (Fin (of_int lz))"
    "t1 renderer = Vec3 (Fin (of_int hx)) (Fin (of_int hy)) (Fin (of_int hz))"
    by (simp_all add: renderer_def newVolumeRenderer_def lh)
  have hit: "is_finite tMin \<and> is_finite tMax" if "intersectBox renderer ?r = (True, tMin, tMax)"
    for tMin tMax
    using intersectBox_hit_finite [OF _ _ _ _ _ _ _ _ _ unit_component [OF ray(2,3)] that] ray(1)
    by (simp add: R vfinite_def)
  have "\<exists>cr. trace renderer ?r = Some (Vec3 (Fin cr) (Fin 0) (Fin 0)) \<and> 0 \<le> cr"
    by (rule trace_colour [OF R(1)]) (simp_all add: R d hit)
  then show "\<exists>y. renderPixel camera renderer 800 600 i = Some y \<and>
              (\<exists>cr. y = Vec3 (Fin cr) (Fin 0) (Fin 0) \<and> 0 \<le> cr)"
    by (auto simp add: renderPixel_def Let_def)
qed

lemma pixels_saved:
  assumes "\<forall>c \<in> set pixels. \<exists>cr. c = Vec3 (Fin cr) (Fin 0) (Fin 0) \<and> 0 \<le> cr"
  shows "\<exists>bytes. saveToPPM pixels w h = Some bytes"
proof -
  have "\<forall>c \<in> set pixels. pixelBytes c \<noteq> None"
    using assms by (auto simp add: pixelBytes_value)
  then show ?thesis using saveToPPM_defined(1) by blast
qed

text \<open>
  C9. With an argument count other than one, \<open>main\<close> prints the usage line on the standard
  output and returns 1; nothing is written to the error stream or to a file (the grid
  inspection tool has the same check). With one argument and an exception out of the
  loading of the grid, it prints \<open>Error:\<close> and the message on the error stream and returns
  1. With one argument and a grid of finite values, the render ends, \<open>main\<close> prints that
  the image was saved to \<open>volume_render.ppm\<close> and returns 0.
\<close>

theorem main_exit_status:
  "(length args \<noteq> 1 \<longrightarrow>
      main prog args openvdb canWrite =
        Some \<lparr>status = 1, out = ''Usage: '' @ prog @ '' <vdb_file>\<newline>'', err = [], files = []\<rparr> \<and>
      inspectUsage prog args =
        Some \<lparr>status = 1, out = ''Usage: '' @ prog @ '' <vdb_file>\<newline>'', err = [], files = []\<rparr>) \<and>
   (args = [path] \<and> openvdb path = Throws what \<longrightarrow>
      main prog args openvdb canWrite =
        Some \<lparr>status = 1, out = [], err = ''Error: '' @ what @ ''\<newline>'', files = []\<rparr>) \<and>
   (args = [path] \<and> openvdb path = Density f lo hi \<and> (\<forall>p. is_finite (f p)) \<longrightarrow>
      (\<exists>bytes. main prog args openvdb canWrite =
         Some \<lparr>status = 0, out = ''Rendered image saved to volume_render.ppm\<newline>'', err = [],
               files = (if canWrite ''volume_render.ppm''
                        then [(''volume_render.ppm'', bytes)] else [])\<rparr>))"
proof (intro conjI impI)
  assume "length args \<noteq> 1"
  then show "main prog args openvdb canWrite =
        Some \<lparr>status = 1, out = ''Usage: '' @ prog @ '' <vdb_file>\<newline>'', err = [], files = []\<rparr>"
    by (simp add: main_def)
next
  assume "length args \<noteq> 1"
  then show "inspectUsage prog args =
        Some \<lparr>status = 1, out = ''Usage: '' @ prog @ '' <vdb_file>\<newline>'', err = [], files = []\<rparr>"
    by (simp add: inspectUsage_def)
next
  assume "args = [path] \<and> openvdb path = Throws what"
  then show "main prog args openvdb canWrite =
        Some \<lparr>status = 1, out = [], err = ''Error: '' @ what @ ''\<newline>'', files = []\<rparr>"
    by (simp add: main_def)
next
  assume a: "args = [path] \<and> openvdb path = Density f lo hi \<and> (\<forall>p. is_finite (f p))"
  then have fin: "\<And>p. is_finite (f p)" by simp
  let ?camera = "newVolumeCamera (Vec3 (Fin 5) (Fin 3) (Fin 5)) (Vec3 (Fin 0) (Fin 0) (Fin 0))
                       (Vec3 (Fin 0) (Fin 1) (Fin 0)) (Fin 60) (fdiv (Fin (real 800)) (Fin (real 600)))"
  let ?renderer = "newVolumeRenderer f lo hi (Vec3 (Fin (- 1)) (Fin 1) (Fin (- 1))) (Fin (1 / 10))"
  obtain pixels where p: "render ?camera ?renderer 800 600 = Some pixels"
    and c: "\<forall>c \<in> set pixels. \<exists>cr. c = Vec3 (Fin cr) (Fin 0) (Fin 0) \<and> 0 \<le> cr"
    using main_render [where f = f and lo = lo and hi = hi] fin by blast
  obtain bytes where b: "saveToPPM pixels (int 800) (int 600) = Some bytes"
    using pixels_saved [OF c] by blast
  show "\<exists>bytes. main prog args openvdb canWrite =
         Some \<lparr>status = 0, out = ''Rendered image saved to volume_render.ppm\<newline>'', err = [],
               files = (if canWrite ''volume_render.ppm''
                        then [(''volume_render.ppm'', bytes)] else [])\<rparr>"
    using a p b by (simp add: main_def Let_def)
qed

text \<open>
  C9 on runs with no argument, with two arguments, with a file that cannot be read, and
  with a grid of density 1 on the voxels from (0, 0, 0) to (9, 9, 9).
\<close>

theorem main_exit_status_witness:
  "main ''volume_render'' [] (\<lambda>path. Throws ''missing'') (\<lambda>name. True) =
     Some \<lparr>status = 1, out = ''Usage: volume_render <vdb_file>\<newline>'', err = [], files = []\<rparr> \<and>
   main ''volume_render'' [''a.vdb'', ''b.vdb''] (\<lambda>path. Throws ''missing'') (\<lambda>name. True) =
     Some \<lparr>status = 1, out = ''Usage: volume_render <vdb_file>\<newline>'', err = [], files = []\<rparr> \<and>
   main ''volume_render'' [''a.vdb''] (\<lambda>path. Throws ''missing'') (\<lambda>name. True) =
     Some \<lparr>status = 1, out = [], err = ''Error: missing\<newline>'', files = []\<rparr> \<and>
   map_option status
     (main ''volume_render'' [''a.vdb''] (\<lambda>path. Density (uniformField 1) (0, 0, 0) (9, 9, 9))
        (\<lambda>name. True)) = Some 0 \<and>
   map_option out
     (main ''volume_render'' [''a.vdb''] (\<lambda>path. Density (uniformField 1) (0, 0, 0) (9, 9, 9))
        (\<lambda>name. True)) = Some ''Rendered image saved to volume_render.ppm\<newline>''"
proof -
  have 1: "main ''volume_render'' [] (\<lambda>path. Throws ''missing'') (\<lambda>name. True) =
     Some \<lparr>status = 1, out = ''Usage: volume_render <vdb_file>\<newline>'', err = [], files = []\<rparr>"
    using main_exit_status [where args = "[]" and prog = "''volume_render''"] by simp
  have 2: "main ''volume_render'' [''a.vdb'', ''b.vdb''] (\<lambda>path. Throws ''missing'') (\<lambda>name. True) =
     Some \<lparr>status = 1, out = ''Usage: volume_render <vdb_file>\<newline>'', err = [], files = []\<rparr>"
    using main_exit_status [where args = "[''a.vdb'', ''b.vdb'']" and prog = "''volume_render''"]
    by simp
  have 3: "main ''volume_render'' [''a.vdb''] (\<lambda>path. Throws ''missing'') (\<lambda>name. True) =
     Some \<lparr>status = 1, out = [], err = ''Error: missing\<newline>'', files = []\<rparr>"
    using main_exit_status [where args = "[''a.vdb'']" and path = "''a.vdb''"
        and openvdb = "\<lambda>path. Throws ''missing''" and what = "''missing''"]
    by simp
  have "\<exists>bytes. main ''volume_render'' [''a.vdb'']
         (\<lambda>path. Density (uniformField 1) (0, 0, 0) (9, 9, 9)) (\<lambda>name. True) =
         Some \<lparr>status = 0, out = ''Rendered image saved to volume_render.ppm\<newline>'', err = [],
               files = [(''volume_render.ppm'', bytes)]\<rparr>"
    using main_exit_status [where args = "[''a.vdb'']" and path = "''a.vdb''"
        and openvdb = "\<lambda>path. Density (uniformField 1) (0, 0, 0) (9, 9, 9)"
        and f = "uniformField 1" and lo = "(0, 0, 0)" and hi = "(9, 9, 9)"
        and canWrite = "\<lambda>name. True" and prog = "''volume_render''"]
    by (simp add: uniformField_def)
  then have 4: "map_option status
     (main ''volume_render'' [''a.vdb''] (\<lambda>path. Density (uniformField 1) (0, 0, 0) (9, 9, 9))
        (\<lambda>name. True)) = Some 0"
    and 5: "map_option out
     (main ''volume_render'' [''a.vdb''] (\<lambda>path. Density (uniformField 1) (0, 0, 0) (9, 9, 9))
        (\<lambda>name. True)) = Some ''Rendered image saved to volume_render.ppm\<newline>''"
    by auto
  from 1 2 3 4 5 show ?thesis by simp
qed

end
